theory Spec2Isabelle
  imports Complex_Main "HOL-Library.AList"
begin

section \<open>JavaScript values\<close>

text \<open>
  The monitor is written in JavaScript, so every numeric quantity is a Number. A Number is
  modelled as \<open>NaN\<close>, the two infinities, or a finite value carried as an exact rational:
  rounding to 53 bits and the sign of zero are not modelled (the only operation that tells
  \<open>-0\<close> from \<open>+0\<close> is a division by zero, which is resolved as for \<open>+0\<close>). What the
  model keeps is what the control flow of the monitor depends on: every comparison with
  \<open>NaN\<close> is false, \<open>x || d\<close> replaces \<open>NaN\<close> and \<open>0\<close> by \<open>d\<close>, and the infinities
  order and combine as in IEEE 754.
\<close>

datatype jsnum = NaN | NInf | Fin rat | PInf

fun js_lt :: "jsnum \<Rightarrow> jsnum \<Rightarrow> bool" where
  "js_lt NaN _ = False"
| "js_lt _ NaN = False"
| "js_lt NInf NInf = False"
| "js_lt NInf _ = True"
| "js_lt (Fin a) (Fin b) = (a < b)"
| "js_lt (Fin a) PInf = True"
| "js_lt (Fin a) NInf = False"
| "js_lt PInf _ = False"

fun js_le :: "jsnum \<Rightarrow> jsnum \<Rightarrow> bool" where
  "js_le NaN _ = False"
| "js_le _ NaN = False"
| "js_le NInf _ = True"
| "js_le (Fin a) (Fin b) = (a \<le> b)"
| "js_le (Fin a) PInf = True"
| "js_le (Fin a) NInf = False"
| "js_le PInf PInf = True"
| "js_le PInf _ = False"

definition js_gt :: "jsnum \<Rightarrow> jsnum \<Rightarrow> bool" where
  "js_gt a b = js_lt b a"

definition js_ge :: "jsnum \<Rightarrow> jsnum \<Rightarrow> bool" where
  "js_ge a b = js_le b a"

text \<open>Strict equality \<open>===\<close> on Numbers: \<open>NaN\<close> equals nothing, itself included.\<close>

definition js_eq :: "jsnum \<Rightarrow> jsnum \<Rightarrow> bool" where
  "js_eq a b = (a \<noteq> NaN \<and> a = b)"

fun js_neg :: "jsnum \<Rightarrow> jsnum" where
  "js_neg NaN = NaN"
| "js_neg NInf = PInf"
| "js_neg (Fin a) = Fin (- a)"
| "js_neg PInf = NInf"

fun js_add :: "jsnum \<Rightarrow> jsnum \<Rightarrow> jsnum" where
  "js_add NaN _ = NaN"
| "js_add _ NaN = NaN"
| "js_add (Fin a) (Fin b) = Fin (a + b)"
| "js_add (Fin a) b = b"
| "js_add PInf NInf = NaN"
| "js_add NInf PInf = NaN"
| "js_add a _ = a"

definition js_sub :: "jsnum \<Rightarrow> jsnum \<Rightarrow> jsnum" where
  "js_sub a b = js_add a (js_neg b)"

text \<open>The sign of a Number other than \<open>NaN\<close>: \<open>-1\<close>, \<open>0\<close> or \<open>1\<close>.\<close>

fun js_sign :: "jsnum \<Rightarrow> int" where
  "js_sign NaN = 0"
| "js_sign NInf = - 1"
| "js_sign (Fin a) = (if a < 0 then - 1 else if a = 0 then 0 else 1)"
| "js_sign PInf = 1"

definition signed_inf :: "int \<Rightarrow> jsnum" where
  "signed_inf s = (if s < 0 then NInf else if s = 0 then NaN else PInf)"

fun js_mul :: "jsnum \<Rightarrow> jsnum \<Rightarrow> jsnum" where
  "js_mul NaN _ = NaN"
| "js_mul _ NaN = NaN"
| "js_mul (Fin a) (Fin b) = Fin (a * b)"
| "js_mul a b = signed_inf (js_sign a * js_sign b)"

fun js_div :: "jsnum \<Rightarrow> jsnum \<Rightarrow> jsnum" where
  "js_div NaN _ = NaN"
| "js_div _ NaN = NaN"
| "js_div (Fin a) (Fin b) = (if b = 0 then signed_inf (js_sign (Fin a)) else Fin (a / b))"
| "js_div (Fin a) _ = Fin 0"
| "js_div a (Fin b) = signed_inf (js_sign a * (if b < 0 then - 1 else 1))"
| "js_div _ _ = NaN"

fun js_abs :: "jsnum \<Rightarrow> jsnum" where
  "js_abs NaN = NaN"
| "js_abs NInf = PInf"
| "js_abs (Fin a) = Fin \<bar>a\<bar>"
| "js_abs PInf = PInf"

fun js_floor :: "jsnum \<Rightarrow> jsnum" where
  "js_floor (Fin a) = Fin (of_int \<lfloor>a\<rfloor>)"
| "js_floor a = a"

text \<open>\<open>x || d\<close> on a Number \<open>x\<close>: \<open>NaN\<close> and \<open>0\<close> are falsy.\<close>

definition num_or :: "jsnum \<Rightarrow> jsnum \<Rightarrow> jsnum" where
  "num_or x d = (if x = NaN \<or> x = Fin 0 then d else x)"

text \<open>
  A property read from a parsed feed record, a candidate or a reloaded position can hold any
  primitive value, or be missing (\<open>Undefined\<close>). Objects are not values of this type: where
  the source reads a property of a nested object, the nested object is a record of its own.
\<close>

datatype jsval = Undefined | Null | Bool bool | Num jsnum | Str string

datatype error = TypeError | ExecutionError

text \<open>
  The string functions of the language that the monitor calls are not part of the repository
  and are taken as parameters: \<open>stringToNumber\<close> is the conversion a comparison or an
  arithmetic operator applies to a string operand, \<open>parseFloatStr\<close> is \<open>parseFloat\<close> on
  a string, \<open>toLowerCase\<close> is \<open>String.prototype.toLowerCase\<close>.
\<close>

record runtime =
  stringToNumber :: "string \<Rightarrow> jsnum"
  parseFloatStr :: "string \<Rightarrow> jsnum"
  toLowerCase :: "string \<Rightarrow> string"

fun toNumber :: "runtime \<Rightarrow> jsval \<Rightarrow> jsnum" where
  "toNumber rt Undefined = NaN"
| "toNumber rt Null = Fin 0"
| "toNumber rt (Bool b) = (if b then Fin 1 else Fin 0)"
| "toNumber rt (Num n) = n"
| "toNumber rt (Str s) = stringToNumber rt s"

text \<open>
  \<open>parseFloat\<close> converts its argument to a string first: \<open>undefined\<close>, \<open>null\<close> and the
  booleans print as words that are no number, a Number prints as a literal that parses back
  to itself.
\<close>

fun parseFloat :: "runtime \<Rightarrow> jsval \<Rightarrow> jsnum" where
  "parseFloat rt (Num n) = n"
| "parseFloat rt (Str s) = parseFloatStr rt s"
| "parseFloat rt _ = NaN"

fun truthy :: "jsval \<Rightarrow> bool" where
  "truthy Undefined = False"
| "truthy Null = False"
| "truthy (Bool b) = b"
| "truthy (Num n) = (n \<noteq> NaN \<and> n \<noteq> Fin 0)"
| "truthy (Str s) = (s \<noteq> [])"

subsection \<open>Strings\<close>

text \<open>
  Strings are byte strings. \<open>asciiLower\<close> and \<open>toUpperCase\<close> change the case of the ASCII
  letters and leave every other character alone; \<open>asciiLower\<close> is the \<open>toLowerCase\<close> of
  the example runtimes, \<open>toUpperCase\<close> is applied by the swapper to token symbols.
\<close>

definition lower_char :: "char \<Rightarrow> char" where
  "lower_char c = (let n = (of_char c :: nat) in if 65 \<le> n \<and> n \<le> 90 then char_of (n + 32) else c)"

definition asciiLower :: "string \<Rightarrow> string" where
  "asciiLower s = map lower_char s"

fun starts_with :: "string \<Rightarrow> string \<Rightarrow> bool" where
  "starts_with s [] = True"
| "starts_with [] (c # w) = False"
| "starts_with (d # s) (c # w) = (d = c \<and> starts_with s w)"

text \<open>\<open>s.includes(w)\<close>: \<open>w\<close> occurs in \<open>s\<close> as a contiguous substring.\<close>

fun str_includes :: "string \<Rightarrow> string \<Rightarrow> bool" where
  "str_includes [] w = (w = [])"
| "str_includes (d # s) w = (starts_with (d # s) w \<or> str_includes s w)"

definition upper_char :: "char \<Rightarrow> char" where
  "upper_char c = (let n = (of_char c :: nat) in if 97 \<le> n \<and> n \<le> 122 then char_of (n - 32) else c)"

definition toUpperCase :: "string \<Rightarrow> string" where
  "toUpperCase s = map upper_char s"

definition alnum :: "char \<Rightarrow> bool" where
  "alnum c = (let n = (of_char c :: nat) in
     (48 \<le> n \<and> n \<le> 57) \<or> (65 \<le> n \<and> n \<le> 90) \<or> (97 \<le> n \<and> n \<le> 122))"

section \<open>Data model\<close>

text \<open>
  \<open>this.config\<close> of the monitor. The numeric settings are Numbers; \<open>maxPositions\<close> and
  \<open>scanInterval\<close> come from \<open>parseInt\<close> and are integers.
\<close>

record config =
  positionSize :: jsnum
  maxSlippage :: jsnum
  minLiquidity :: jsnum
  stopLoss :: jsnum
  minVolume24h :: jsnum
  minPriceChange :: jsnum
  minMarketCap :: jsnum
  scanInterval :: int
  maxPositions :: int
  dryRun :: bool
  blacklist :: "string list"

text \<open>A record of the market feed, as parsed from the response (\<open>pair\<close> in the source).\<close>

record baseToken =
  bt_address :: jsval
  bt_symbol :: jsval
  bt_name :: jsval

record rawPair =
  chainId :: jsval
  baseToken :: "baseToken option"
  priceUsd :: jsval
  priceChange_h24 :: jsval
  volume_h24 :: jsval
  liquidity_usd :: jsval
  fdv :: jsval
  raw_pairAddress :: jsval

text \<open>The candidate object (\<open>token\<close> in the source) that the scan passes around.\<close>

record candidate =
  address :: jsval
  symbol :: jsval
  name :: jsval
  price :: jsval
  priceChange24h :: jsval
  volume24h :: jsval
  liquidity :: jsval
  marketCap :: jsval
  pairAddress :: jsval

text \<open>
  An open position. \<open>entryTime\<close> is the ISO string of the entry instant in the source and
  is carried as that instant in milliseconds.
\<close>

record position =
  token :: jsval
  pos_address :: jsval
  entryPrice :: jsval
  entryTime :: int
  amount :: jsval
  usdcInvested :: jsval
  pos_signature :: string
  pos_stopLoss :: jsval

text \<open>What the quote and the transaction of one swap yield.\<close>

record fill =
  signature :: string
  inputAmount :: jsnum
  outputAmount :: jsnum
  priceImpact :: jsnum
  executionTime :: int
  timestamp :: int

record swapResult = fill +
  inputToken :: jsval
  outputToken :: jsval
  res_dryRun :: bool

text \<open>
  The reason of an exit is a formatted string in the source; the model keeps which of the
  three texts it is and the number printed in it.
\<close>

datatype exitReason = NoReason | StopLossTriggered jsnum | TimeExit jsnum | ProfitTaking jsnum

record trade =
  tr_type :: string
  tr_token :: jsval
  tr_reason :: exitReason
  tr_entryPrice :: jsval
  tr_entryTime :: int
  tr_exitTime :: int
  tr_invested :: jsval
  tr_finalValue :: jsnum
  tr_pnl :: jsnum
  tr_pnlPercent :: jsnum
  tr_signature :: string

text \<open>
  A line of \<open>trades.log\<close>: the swapper appends a line of type \<open>SWAP\<close> for every swap it
  completes, the monitor appends the trades that \<open>logTrade\<close> is given, each under the
  timestamp of the call.
\<close>

datatype logLine = SwapLine swapResult | TradeLine int trade

fun line_type :: "logLine \<Rightarrow> string" where
  "line_type (SwapLine r) = ''SWAP''"
| "line_type (TradeLine ts t) = tr_type t"

text \<open>
  The state of the monitor: the \<open>positions\<close> Map (its entries in insertion order), the
  file \<open>positions.json\<close> (absent, or the array it holds) and the lines of \<open>trades.log\<close>.
  Writing a file is taken to succeed.
\<close>

record state =
  positions :: "(jsval \<times> position) list"
  positionsFile :: "position list option"
  tradesLog :: "logLine list"

text \<open>
  What the outside world answers during one call: the clock, the two endpoints of the
  market feed (\<open>None\<close> when the request fails or the answer has no \<open>pairs\<close> array) and the
  exchange behind the swapper.
\<close>

record world =
  now :: int
  trendingPairs :: "rawPair list option"
  tokenPairs :: "jsval \<Rightarrow> rawPair list option"
  exchange :: "string \<Rightarrow> string \<Rightarrow> jsnum \<Rightarrow> bool \<Rightarrow> error + fill"

subsection \<open>The Map of positions\<close>

definition has :: "(jsval \<times> position) list \<Rightarrow> jsval \<Rightarrow> bool" where
  "has ps k = (k \<in> set (map fst ps))"

definition map_set :: "jsval \<Rightarrow> position \<Rightarrow> (jsval \<times> position) list \<Rightarrow> (jsval \<times> position) list" where
  "map_set k v ps = AList.update k v ps"

definition map_delete :: "jsval \<Rightarrow> (jsval \<times> position) list \<Rightarrow> (jsval \<times> position) list" where
  "map_delete k ps = AList.delete k ps"

section \<open>The swapper\<close>

definition tokenMints :: "(string \<times> string) list" where
  "tokenMints =
    [(''SOL'', ''So11111111111111111111111111111111111111112''),
     (''USDC'', ''EPjFWdd5AufqSSqeM2qN1xzybapC8G4wEGGkZwyTDt1v''),
     (''USDT'', ''Es9vMFrzaCERmJfrF4H2FYD4KCoNkY11McCe8BenwNYB''),
     (''RAY'', ''4k3Dyjzvzp8eMZWUXbBCjEvwSkkk59S5iCNLY3QrkX6R''),
     (''SRM'', ''SRMuApVNdxXokk5GT7XD5cUUgXMBCoAz2LHeuAoKWRt'')]"

text \<open>
  \<open>getMintAddress\<close>: a string of 44 letters and digits is a mint address already, any
  other string is looked up as a symbol and an unknown symbol throws. A value that is no
  string has no \<open>toUpperCase\<close>, which throws as well.
\<close>

definition getMintAddress :: "jsval \<Rightarrow> error + string" where
  "getMintAddress tok =
    (case tok of
       Str s \<Rightarrow>
         if length s = 44 \<and> list_all alnum s then Inr s
         else (case map_of tokenMints (toUpperCase s) of
                 Some mint \<Rightarrow> Inr mint
               | None \<Rightarrow> Inl ExecutionError)
     | _ \<Rightarrow> Inl TypeError)"

text \<open>
  \<open>swap\<close>: resolve both tokens, ask the exchange for the quote and the transaction, and on
  success append the \<open>SWAP\<close> line to the log and return the result. Every failure is
  rethrown to the caller before anything is written.
\<close>

definition swap :: "world \<Rightarrow> jsval \<Rightarrow> jsval \<Rightarrow> jsnum \<Rightarrow> bool \<Rightarrow> state \<Rightarrow> (error + swapResult) \<times> state" where
  "swap w inTok outTok amt dry s =
    (case getMintAddress inTok of
       Inl e \<Rightarrow> (Inl e, s)
     | Inr inputMint \<Rightarrow>
    (case getMintAddress outTok of
       Inl e \<Rightarrow> (Inl e, s)
     | Inr outputMint \<Rightarrow>
    (case exchange w inputMint outputMint amt dry of
       Inl e \<Rightarrow> (Inl e, s)
     | Inr f \<Rightarrow>
         let result = \<lparr>signature = signature f, inputAmount = inputAmount f,
                        outputAmount = outputAmount f, priceImpact = priceImpact f,
                        executionTime = executionTime f, timestamp = timestamp f,
                        inputToken = inTok, outputToken = outTok, res_dryRun = dry\<rparr>
         in (Inr result, s\<lparr>tradesLog := tradesLog s @ [SwapLine result]\<rparr>))))"

section \<open>The monitor\<close>

subsection \<open>Persistence\<close>

text \<open>
  \<open>JSON.stringify\<close> followed by \<open>JSON.parse\<close>, on one property: JSON has no literal for
  \<open>NaN\<close> and the infinities, which are written as \<open>null\<close>; a property that is
  \<open>undefined\<close> is left out and reads back as \<open>undefined\<close>.
\<close>

fun jsonValue :: "jsval \<Rightarrow> jsval" where
  "jsonValue (Num (Fin a)) = Num (Fin a)"
| "jsonValue (Num _) = Null"
| "jsonValue v = v"

definition jsonPosition :: "position \<Rightarrow> position" where
  "jsonPosition p =
    \<lparr>token = jsonValue (token p), pos_address = jsonValue (pos_address p),
     entryPrice = jsonValue (entryPrice p), entryTime = entryTime p,
     amount = jsonValue (amount p), usdcInvested = jsonValue (usdcInvested p),
     pos_signature = pos_signature p, pos_stopLoss = jsonValue (pos_stopLoss p)\<rparr>"

text \<open>
  \<open>savePositions\<close> writes one object \<open>{address, ...position}\<close> per entry. The position has
  an \<open>address\<close> property of its own, and the spread comes second, so the object carries the
  position's address, not the key.
\<close>

definition savePositions :: "state \<Rightarrow> state" where
  "savePositions s =
    s\<lparr>positionsFile :=
        Some (map (\<lambda>(addr, pos). jsonPosition (pos\<lparr>pos_address := pos_address pos\<rparr>)) (positions s))\<rparr>"

definition loadPositions :: "state \<Rightarrow> state" where
  "loadPositions s =
    (case positionsFile s of
       None \<Rightarrow> s
     | Some data \<Rightarrow>
         s\<lparr>positions := fold (\<lambda>pos ps. map_set (pos_address pos) pos ps) data (positions s)\<rparr>)"

definition logTrade :: "world \<Rightarrow> trade \<Rightarrow> state \<Rightarrow> state" where
  "logTrade w tr s = s\<lparr>tradesLog := tradesLog s @ [TradeLine (now w) tr]\<rparr>"

subsection \<open>The opportunity filter\<close>

definition isGoodOpportunity :: "runtime \<Rightarrow> config \<Rightarrow> state \<Rightarrow> candidate \<Rightarrow> error + bool" where
  "isGoodOpportunity rt cfg s tok =
    (if js_lt (toNumber rt (volume24h tok)) (minVolume24h cfg) then Inr False
     else if js_lt (js_abs (toNumber rt (priceChange24h tok))) (minPriceChange cfg) then Inr False
     else if js_lt (toNumber rt (liquidity tok)) (minLiquidity cfg) then Inr False
     else if js_lt (toNumber rt (marketCap tok)) (minMarketCap cfg) then Inr False
     else (case symbol tok of
        Str sy \<Rightarrow>
          (let symbolLower = toLowerCase rt sy in
           if list_ex (\<lambda>word. str_includes symbolLower word) (blacklist cfg) then Inr False
           else if has (positions s) (address tok) then Inr False
           else if js_le (toNumber rt (priceChange24h tok)) (Fin 0) then Inr False
           else Inr True)
      | _ \<Rightarrow> Inl TypeError))"

subsection \<open>Opening a position\<close>

text \<open>
  \<open>enterPosition\<close>: in a dry run the fill is simulated and cannot fail; otherwise the
  swapper is called and a failure is caught, logged, and leaves the state as it is.
\<close>

definition enterPosition :: "runtime \<Rightarrow> config \<Rightarrow> world \<Rightarrow> candidate \<Rightarrow> state \<Rightarrow> state" where
  "enterPosition rt cfg w tok s =
    (let usdcAmount = js_mul (positionSize cfg) (Fin 1000000);
         (result, s1) =
           (if dryRun cfg then
              (let simulatedAmount =
                     (if js_gt (toNumber rt (price tok)) (Fin 0)
                      then js_div (positionSize cfg) (toNumber rt (price tok))
                      else positionSize cfg)
               in (Inr (''DRY_RUN'', simulatedAmount), s))
            else (case swap w (Str ''USDC'') (address tok) usdcAmount (dryRun cfg) s of
                    (Inl e, s') \<Rightarrow> (Inl e, s')
                  | (Inr r, s') \<Rightarrow> (Inr (signature r, outputAmount r), s')))
     in case result of
          Inl e \<Rightarrow> s1
        | Inr (sig, out) \<Rightarrow>
            let pos = \<lparr>token = symbol tok, pos_address = address tok, entryPrice = price tok,
                       entryTime = now w, amount = Num out,
                       usdcInvested = Num (positionSize cfg), pos_signature = sig,
                       pos_stopLoss =
                         Num (js_mul (toNumber rt (price tok))
                                (js_sub (Fin 1) (js_div (stopLoss cfg) (Fin 100))))\<rparr>
            in savePositions (s1\<lparr>positions := map_set (address tok) pos (positions s1)\<rparr>))"

subsection \<open>Evaluating and closing a position\<close>

record tokenData =
  td_price :: jsnum
  td_priceChange24h :: jsnum
  td_volume24h :: jsnum
  td_liquidity :: jsnum

definition getTokenData :: "runtime \<Rightarrow> world \<Rightarrow> jsval \<Rightarrow> tokenData option" where
  "getTokenData rt w addr =
    (case tokenPairs w addr of
       None \<Rightarrow> None
     | Some pairs \<Rightarrow>
         (case find (\<lambda>p. chainId p = Str ''base'') pairs of
            None \<Rightarrow> None
          | Some pair \<Rightarrow>
              Some \<lparr>td_price = num_or (parseFloat rt (priceUsd pair)) (Fin 0),
                    td_priceChange24h = num_or (parseFloat rt (priceChange_h24 pair)) (Fin 0),
                    td_volume24h = num_or (parseFloat rt (volume_h24 pair)) (Fin 0),
                    td_liquidity = num_or (parseFloat rt (liquidity_usd pair)) (Fin 0)\<rparr>))"

definition exitPosition :: "runtime \<Rightarrow> config \<Rightarrow> world \<Rightarrow> jsval \<Rightarrow> position \<Rightarrow> exitReason \<Rightarrow> state \<Rightarrow> state" where
  "exitPosition rt cfg w addr pos reason s =
    (let tokenAmount = js_floor (js_mul (toNumber rt (amount pos)) (Fin 1000000))
     in case swap w addr (Str ''USDC'') tokenAmount (dryRun cfg) s of
          (Inl e, s1) \<Rightarrow> s1
        | (Inr result, s1) \<Rightarrow>
            let finalValue = outputAmount result;
                pnl = js_sub finalValue (toNumber rt (usdcInvested pos));
                pnlPercent = js_mul (js_div pnl (toNumber rt (usdcInvested pos))) (Fin 100);
                s2 = savePositions (s1\<lparr>positions := map_delete addr (positions s1)\<rparr>)
            in logTrade w
                 \<lparr>tr_type = ''EXIT'', tr_token = token pos,
                  tr_reason = reason, tr_entryPrice = entryPrice pos,
                  tr_entryTime = entryTime pos, tr_exitTime = now w,
                  tr_invested = usdcInvested pos, tr_finalValue = finalValue, tr_pnl = pnl,
                  tr_pnlPercent = pnlPercent, tr_signature = signature result\<rparr> s2)"

text \<open>
  The three exit checks of \<open>checkPosition\<close>, in the order of the source: each one that
  matches sets \<open>shouldExit\<close> and overwrites \<open>exitReason\<close>. The stop-loss text calls
  \<open>toFixed\<close> on the stored stop-loss, which throws unless that is a Number.
\<close>

definition exitSignal :: "runtime \<Rightarrow> world \<Rightarrow> jsnum \<Rightarrow> position \<Rightarrow> error + (bool \<times> exitReason)" where
  "exitSignal rt w currentPrice pos =
    (let pnl = js_mul (js_div (js_sub currentPrice (toNumber rt (entryPrice pos)))
                         (toNumber rt (entryPrice pos))) (Fin 100);
         positionAge = now w - entryTime pos;
         maxAge = 4 * 60 * 60 * 1000
     in case (if js_le currentPrice (toNumber rt (pos_stopLoss pos))
              then (case pos_stopLoss pos of
                      Num sl \<Rightarrow> Inr (True, StopLossTriggered sl)
                    | _ \<Rightarrow> Inl TypeError)
              else Inr (False, NoReason)) of
          Inl e \<Rightarrow> Inl e
        | Inr st1 \<Rightarrow>
            let st2 = (if positionAge > maxAge \<and> js_lt pnl (Fin 20)
                       then (True, TimeExit pnl) else st1);
                st3 = (if js_gt pnl (Fin 50) then (True, ProfitTaking pnl) else st2)
            in Inr st3)"

definition checkPosition :: "runtime \<Rightarrow> config \<Rightarrow> world \<Rightarrow> jsval \<Rightarrow> position \<Rightarrow> state \<Rightarrow> error + state" where
  "checkPosition rt cfg w addr pos s =
    (case getTokenData rt w addr of
       None \<Rightarrow> Inr s
     | Some currentData \<Rightarrow>
         (case exitSignal rt w (td_price currentData) pos of
            Inl e \<Rightarrow> Inl e
          | Inr (shouldExit, exitReason) \<Rightarrow>
              if shouldExit then Inr (exitPosition rt cfg w addr pos exitReason s) else Inr s))"

text \<open>
  \<open>checkPositions\<close> walks the entries of the Map; an evaluation can only delete the entry
  it is at, so the walk visits the entries present at the start. An error of one evaluation
  is caught and the walk goes on. The \<open>i\<close>-th evaluation sees the world \<open>ws i\<close>.
\<close>

fun checkLoop :: "runtime \<Rightarrow> config \<Rightarrow> (nat \<Rightarrow> world) \<Rightarrow> nat \<Rightarrow> (jsval \<times> position) list \<Rightarrow> state \<Rightarrow> state" where
  "checkLoop rt cfg ws i [] s = s"
| "checkLoop rt cfg ws i ((addr, pos) # rest) s =
     checkLoop rt cfg ws (Suc i) rest
       (case checkPosition rt cfg (ws i) addr pos s of Inl e \<Rightarrow> s | Inr s' \<Rightarrow> s')"

definition checkPositions :: "runtime \<Rightarrow> config \<Rightarrow> (nat \<Rightarrow> world) \<Rightarrow> state \<Rightarrow> state" where
  "checkPositions rt cfg ws s = checkLoop rt cfg ws 0 (positions s) s"

subsection \<open>The market feed\<close>

definition popularTokens :: "string list" where
  "popularTokens =
    [''0x311935Cd80B76769bF2ecC9D8Ab7635b2139cf82'',
     ''0x833589fCD6eDb6E08f4c7C32D4f71b54bdA02913'']"

text \<open>The filter with the \<open>seen\<close> set: the first record of each \<open>pairAddress\<close> is kept.\<close>

fun removeDuplicates :: "jsval list \<Rightarrow> rawPair list \<Rightarrow> rawPair list" where
  "removeDuplicates seen [] = []"
| "removeDuplicates seen (p # ps) =
     (let key = raw_pairAddress p
      in if key \<in> set seen then removeDuplicates seen ps
         else p # removeDuplicates (key # seen) ps)"

text \<open>A callback that can throw, mapped or filtered over an array: the first throw ends it.\<close>

fun mapE :: "('a \<Rightarrow> error + 'b) \<Rightarrow> 'a list \<Rightarrow> error + 'b list" where
  "mapE f [] = Inr []"
| "mapE f (x # xs) =
     (case f x of
        Inl e \<Rightarrow> Inl e
      | Inr y \<Rightarrow> (case mapE f xs of Inl e \<Rightarrow> Inl e | Inr ys \<Rightarrow> Inr (y # ys)))"

fun filterE :: "('a \<Rightarrow> error + bool) \<Rightarrow> 'a list \<Rightarrow> error + 'a list" where
  "filterE f [] = Inr []"
| "filterE f (x # xs) =
     (case f x of
        Inl e \<Rightarrow> Inl e
      | Inr b \<Rightarrow> (case filterE f xs of
                    Inl e \<Rightarrow> Inl e
                  | Inr ys \<Rightarrow> Inr (if b then x # ys else ys)))"

text \<open>The object built from one feed record; reading \<open>pair.baseToken.address\<close> throws when
  the record has no \<open>baseToken\<close>.\<close>

definition toCandidate :: "runtime \<Rightarrow> rawPair \<Rightarrow> error + candidate" where
  "toCandidate rt pair =
    (case baseToken pair of
       None \<Rightarrow> Inl TypeError
     | Some bt \<Rightarrow>
         Inr \<lparr>address = bt_address bt, symbol = bt_symbol bt, name = bt_name bt,
              price = Num (num_or (parseFloat rt (priceUsd pair)) (Fin 0)),
              priceChange24h = Num (num_or (parseFloat rt (priceChange_h24 pair)) (Fin 0)),
              volume24h = Num (num_or (parseFloat rt (volume_h24 pair)) (Fin 0)),
              liquidity = Num (num_or (parseFloat rt (liquidity_usd pair)) (Fin 0)),
              marketCap = Num (num_or (parseFloat rt (fdv pair)) (Fin 0)),
              pairAddress = raw_pairAddress pair\<rparr>)"

definition isBase :: "rawPair \<Rightarrow> bool" where
  "isBase p = (chainId p = Str ''base'')"

definition usable :: "runtime \<Rightarrow> candidate \<Rightarrow> bool" where
  "usable rt tok =
    (js_gt (toNumber rt (price tok)) (Fin 0) \<and> js_gt (toNumber rt (volume24h tok)) (Fin 0) \<and>
     truthy (symbol tok) \<and> truthy (address tok))"

text \<open>
  The pairs that \<open>getTrendingTokens\<close> works on: those of the trending endpoint, and, when
  these are empty or hold no record of the chain, the records of the chain that the lookups
  of the popular tokens add, with duplicates removed.
\<close>

definition needsFallback :: "rawPair list \<Rightarrow> bool" where
  "needsFallback pairs = (pairs = [] \<or> \<not> list_ex isBase pairs)"

definition fallbackPairs :: "runtime \<Rightarrow> config \<Rightarrow> world \<Rightarrow> rawPair list \<Rightarrow> rawPair list" where
  "fallbackPairs rt cfg w pairs =
    removeDuplicates []
      (fold (\<lambda>tokenAddress acc.
               case tokenPairs w (Str tokenAddress) of
                 None \<Rightarrow> acc
               | Some ps \<Rightarrow>
                   acc @ filter (\<lambda>p. isBase p \<and>
                                     js_gt (toNumber rt (volume_h24 p)) (minVolume24h cfg)) ps)
            (take 2 popularTokens) pairs)"

definition getTrendingTokens :: "runtime \<Rightarrow> config \<Rightarrow> world \<Rightarrow> candidate list" where
  "getTrendingTokens rt cfg w =
    (let pairs0 = (case trendingPairs w of Some ps \<Rightarrow> ps | None \<Rightarrow> []);
         pairs = (if needsFallback pairs0 then fallbackPairs rt cfg w pairs0 else pairs0)
     in if pairs = [] then []
        else (case mapE (toCandidate rt) (filter isBase pairs) of
                Inl e \<Rightarrow> []
              | Inr toks \<Rightarrow> filter (usable rt) toks))"

subsection \<open>The scan\<close>

text \<open>
  The loop of \<open>scanMarkets\<close> over the top opportunities. Beside the state it returns the
  calls of \<open>enterPosition\<close> it made, each with the size of the Map at the call. The
  \<open>i\<close>-th call sees the world \<open>ws i\<close>.
\<close>

fun openLoop :: "runtime \<Rightarrow> config \<Rightarrow> (nat \<Rightarrow> world) \<Rightarrow> nat \<Rightarrow> candidate list \<Rightarrow> state \<Rightarrow> (nat \<times> candidate) list \<times> state" where
  "openLoop rt cfg ws i [] s = ([], s)"
| "openLoop rt cfg ws i (tok # rest) s =
     (if int (length (positions s)) \<ge> maxPositions cfg then ([], s)
      else (let (att, s') = openLoop rt cfg ws (Suc i) rest (enterPosition rt cfg (ws i) tok s)
            in ((length (positions s), tok) # att, s')))"

text \<open>The opportunities of a scan: the candidates of the feed that pass the filter, in feed
  order; the filter throws on a symbol that is no string, which ends the scan.\<close>

definition opportunitiesOf :: "runtime \<Rightarrow> config \<Rightarrow> world \<Rightarrow> state \<Rightarrow> error + candidate list" where
  "opportunitiesOf rt cfg w s = filterE (isGoodOpportunity rt cfg s) (getTrendingTokens rt cfg w)"

fun hasToFixed :: "jsval \<Rightarrow> bool" where
  "hasToFixed (Num n) = True"
| "hasToFixed _ = False"

definition scanMarkets :: "runtime \<Rightarrow> config \<Rightarrow> world \<Rightarrow> (nat \<Rightarrow> world) \<Rightarrow> state \<Rightarrow> (nat \<times> candidate) list \<times> state" where
  "scanMarkets rt cfg w ws s =
    (case opportunitiesOf rt cfg w s of
       Inl e \<Rightarrow> ([], s)
     | Inr opportunities \<Rightarrow>
         if opportunities = [] then ([], s)
         else if \<not> list_all (\<lambda>tok. hasToFixed (priceChange24h tok)) opportunities then ([], s)
         else (let topOpportunities = take (min 3 (length opportunities)) opportunities
               in openLoop rt cfg ws 0 topOpportunities s))"

section \<open>Example inputs\<close>

text \<open>
  The default configuration in a dry run and live, the candidate \<open>FOO\<close> of the scenarios,
  and a position on it, held under an address that the swapper can resolve.
\<close>

definition ex_rt :: runtime where
  "ex_rt =
    \<lparr>stringToNumber = (\<lambda>s. NaN), parseFloatStr = (\<lambda>s. NaN), toLowerCase = asciiLower\<rparr>"

definition ex_cfg :: config where
  "ex_cfg =
    \<lparr>positionSize = Fin 10, maxSlippage = Fin 1, minLiquidity = Fin 100000, stopLoss = Fin 10,
     minVolume24h = Fin 50000, minPriceChange = Fin 5, minMarketCap = Fin 100000,
     scanInterval = 30000, maxPositions = 3, dryRun = True,
     blacklist = [''meme'', ''scam'', ''inu'', ''doge'']\<rparr>"

definition ex_live :: config where
  "ex_live = ex_cfg\<lparr>dryRun := False\<rparr>"

definition ex_foo :: candidate where
  "ex_foo =
    \<lparr>address = Str ''0xA'', symbol = Str ''FOO'', name = Str ''Foo'', price = Num (Fin 1),
     priceChange24h = Num (Fin 12), volume24h = Num (Fin 80000), liquidity = Num (Fin 150000),
     marketCap = Num (Fin 200000), pairAddress = Str ''0xP''\<rparr>"

definition ex_empty :: state where
  "ex_empty = \<lparr>positions = [], positionsFile = None, tradesLog = []\<rparr>"

definition ex_world :: world where
  "ex_world =
    \<lparr>now = 1000, trendingPairs = None, tokenPairs = (\<lambda>a. None),
     exchange = (\<lambda>a b c d. Inl ExecutionError)\<rparr>"

definition ex_pos :: position where
  "ex_pos =
    \<lparr>token = Str ''FOO'', pos_address = Str ''Es9vMFrzaCERmJfrF4H2FYD4KCoNkY11McCe8BenwNYB'',
     entryPrice = Num (Fin 1), entryTime = 0, amount = Num (Fin 10),
     usdcInvested = Num (Fin 10), pos_signature = ''DRY_RUN'',
     pos_stopLoss = Num (Fin (9 / 10))\<rparr>"

definition ex_held :: state where
  "ex_held =
    \<lparr>positions = [(pos_address ex_pos, ex_pos)], positionsFile = Some [ex_pos], tradesLog = []\<rparr>"

definition ex_quote :: "jsval \<Rightarrow> rawPair" where
  "ex_quote p =
    \<lparr>chainId = Str ''base'',
     baseToken = Some \<lparr>bt_address = Str ''0xA'', bt_symbol = Str ''FOO'', bt_name = Str ''Foo''\<rparr>,
     priceUsd = p, priceChange_h24 = Num (Fin 12), volume_h24 = Num (Fin 80000),
     liquidity_usd = Num (Fin 150000), fdv = Num (Fin 200000), raw_pairAddress = Str ''0xP''\<rparr>"

definition ex_fill :: fill where
  "ex_fill =
    \<lparr>signature = ''TX1'', inputAmount = Fin 10, outputAmount = Fin 8, priceImpact = Fin 0,
     executionTime = 5, timestamp = 18000000\<rparr>"

text \<open>Five hours after the entry of \<open>ex_pos\<close>, with the price at 0.80 and a working exchange.\<close>

definition ex_late :: world where
  "ex_late =
    \<lparr>now = 18000000, trendingPairs = None,
     tokenPairs = (\<lambda>a. Some [ex_quote (Num (Fin (4 / 5)))]),
     exchange = (\<lambda>a b c d. Inr ex_fill)\<rparr>"

text \<open>A second record of the feed, with its price as a string, a parser that reads it, and
  a feed that lists both records; the configuration with room for one position.\<close>

definition ex_bar :: rawPair where
  "ex_bar =
    \<lparr>chainId = Str ''base'',
     baseToken = Some \<lparr>bt_address = Str ''0xB'', bt_symbol = Str ''BAR'', bt_name = Str ''Bar''\<rparr>,
     priceUsd = Str ''2.0'', priceChange_h24 = Num (Fin 7), volume_h24 = Num (Fin 90000),
     liquidity_usd = Num (Fin 150000), fdv = Num (Fin 200000), raw_pairAddress = Str ''0xQ''\<rparr>"

definition ex_parse :: runtime where
  "ex_parse =
    \<lparr>stringToNumber = (\<lambda>s. if s = ''2.0'' then Fin 2 else NaN),
     parseFloatStr = (\<lambda>s. if s = ''2.0'' then Fin 2 else NaN),
     toLowerCase = asciiLower\<rparr>"

definition ex_feed :: world where
  "ex_feed = ex_world\<lparr>trendingPairs := Some [ex_quote (Num (Fin 1)), ex_bar]\<rparr>"

definition ex_one :: config where
  "ex_one = ex_cfg\<lparr>maxPositions := 1\<rparr>"

text \<open>One hour after the entry of \<open>ex_pos\<close>, with the price at its stop-loss of 0.90.\<close>

definition ex_at_stop :: world where
  "ex_at_stop =
    \<lparr>now = 3600000, trendingPairs = None,
     tokenPairs = (\<lambda>a. Some [ex_quote (Num (Fin (9 / 10)))]),
     exchange = (\<lambda>a b c d. Inr ex_fill)\<rparr>"


text \<open>
  Two properties of a Map of positions: \<open>wellKeyed\<close>, every key occurs once and is the
  address of its position; \<open>jsonSafe\<close>, every position is written to JSON and read back
  unchanged. The candidate \<open>ex_inf\<close> is \<open>FOO\<close> with a price that parsed to \<open>Infinity\<close>.
\<close>

definition wellKeyed :: "(jsval \<times> position) list \<Rightarrow> bool" where
  "wellKeyed ps = (distinct (map fst ps) \<and> list_all (\<lambda>(k, p). pos_address p = k) ps)"

definition jsonSafe :: "(jsval \<times> position) list \<Rightarrow> bool" where
  "jsonSafe ps = list_all (\<lambda>(k, p). jsonPosition p = p) ps"

definition ex_inf :: candidate where
  "ex_inf = ex_foo\<lparr>price := Num PInf\<rparr>"

text \<open>
  Two feeds for the normaliser: \<open>ex_twice\<close> lists the pool of \<open>FOO\<close> twice on the trending
  endpoint; \<open>ex_fallback\<close> has no trending answer, and each lookup of a popular token
  returns the pool of \<open>FOO\<close>, the pool of \<open>BAR\<close> and the pool of \<open>FOO\<close> again.
\<close>

definition ex_twice :: world where
  "ex_twice = ex_world\<lparr>trendingPairs := Some [ex_quote (Num (Fin 1)), ex_quote (Num (Fin 2))]\<rparr>"

definition ex_fallback :: world where
  "ex_fallback =
    ex_world\<lparr>tokenPairs := (\<lambda>a. Some [ex_quote (Num (Fin 1)), ex_bar, ex_quote (Num (Fin 2))])\<rparr>"

text \<open>The candidate \<open>FOO\<close> with its four figures missing, and a feed record of \<open>FOO\<close> whose
  five figures are missing.\<close>

definition ex_bare :: candidate where
  "ex_bare =
    ex_foo\<lparr>volume24h := Undefined, priceChange24h := Undefined, liquidity := Undefined,
           marketCap := Undefined\<rparr>"

definition ex_blank :: rawPair where
  "ex_blank =
    \<lparr>chainId = Str ''base'',
     baseToken = Some \<lparr>bt_address = Str ''0xA'', bt_symbol = Str ''FOO'', bt_name = Str ''Foo''\<rparr>,
     priceUsd = Undefined, priceChange_h24 = Undefined, volume_h24 = Undefined,
     liquidity_usd = Undefined, fdv = Undefined, raw_pairAddress = Str ''0xP''\<rparr>"

section \<open>The normaliser in the words of the specification\<close>

text \<open>
  A second description of the candidates of a scan, to be compared with
  \<open>getTrendingTokens\<close>. \<open>spec_firstOccurrences\<close> keeps the record at index \<open>i\<close> when no
  earlier record carries its pool identifier. \<open>spec_complete\<close>: the price and the volume
  parse to Numbers above 0, and the symbol and the address are present. \<open>spec_candidate\<close>:
  the candidate of a complete record carries the parsed price and volume, and 0 for every
  other figure that does not parse. \<open>spec_lookup\<close>: the records of the chain, with a volume
  above the threshold, that the lookup of one popular token returns. \<open>spec_source\<close>: the
  trending answer as received when it holds a record of the chain; otherwise the first
  occurrences among the trending answer followed by the lookups of the popular tokens.
\<close>

definition spec_firstOccurrences :: "rawPair list \<Rightarrow> rawPair list" where
  "spec_firstOccurrences ps =
    map (\<lambda>i. ps ! i)
      (filter (\<lambda>i. raw_pairAddress (ps ! i) \<notin> raw_pairAddress ` set (take i ps))
         [0..<length ps])"

definition spec_complete :: "runtime \<Rightarrow> rawPair \<Rightarrow> baseToken \<Rightarrow> bool" where
  "spec_complete rt p bt =
    (js_gt (parseFloat rt (priceUsd p)) (Fin 0) \<and> js_gt (parseFloat rt (volume_h24 p)) (Fin 0) \<and>
     truthy (bt_symbol bt) \<and> truthy (bt_address bt))"

definition spec_candidate :: "runtime \<Rightarrow> rawPair \<Rightarrow> baseToken \<Rightarrow> candidate" where
  "spec_candidate rt p bt =
    \<lparr>address = bt_address bt, symbol = bt_symbol bt, name = bt_name bt,
     price = Num (parseFloat rt (priceUsd p)),
     priceChange24h = Num (num_or (parseFloat rt (priceChange_h24 p)) (Fin 0)),
     volume24h = Num (parseFloat rt (volume_h24 p)),
     liquidity = Num (num_or (parseFloat rt (liquidity_usd p)) (Fin 0)),
     marketCap = Num (num_or (parseFloat rt (fdv p)) (Fin 0)),
     pairAddress = raw_pairAddress p\<rparr>"

definition spec_candidates :: "runtime \<Rightarrow> rawPair list \<Rightarrow> candidate list" where
  "spec_candidates rt ps =
    concat (map (\<lambda>p. case baseToken p of
                        None \<Rightarrow> []
                      | Some bt \<Rightarrow>
                          if chainId p = Str ''base'' \<and> spec_complete rt p bt
                          then [spec_candidate rt p bt] else []) ps)"

definition spec_lookup :: "runtime \<Rightarrow> config \<Rightarrow> world \<Rightarrow> string \<Rightarrow> rawPair list" where
  "spec_lookup rt cfg w a =
    (case tokenPairs w (Str a) of
       None \<Rightarrow> []
     | Some ps \<Rightarrow>
         filter (\<lambda>p. chainId p = Str ''base'' \<and>
                     js_gt (toNumber rt (volume_h24 p)) (minVolume24h cfg)) ps)"

definition spec_trending :: "world \<Rightarrow> rawPair list" where
  "spec_trending w = (case trendingPairs w of Some ps \<Rightarrow> ps | None \<Rightarrow> [])"

definition spec_source :: "runtime \<Rightarrow> config \<Rightarrow> world \<Rightarrow> rawPair list" where
  "spec_source rt cfg w =
    (if \<exists>p \<in> set (spec_trending w). chainId p = Str ''base'' then spec_trending w
     else spec_firstOccurrences
            (spec_trending w @ concat (map (spec_lookup rt cfg w) popularTokens)))"

text \<open>A trending answer whose second record of the chain has no \<open>baseToken\<close>.\<close>

definition ex_headless :: world where
  "ex_headless =
    ex_world\<lparr>trendingPairs := Some [ex_quote (Num (Fin 1)), ex_bar\<lparr>baseToken := None\<rparr>]\<rparr>"

text \<open>A trending answer that holds one record, of another chain, while each lookup of a
  popular token returns what it returns in \<open>ex_fallback\<close>.\<close>

definition ex_elsewhere :: world where
  "ex_elsewhere =
    ex_fallback\<lparr>trendingPairs :=
      Some [ex_quote (Num (Fin 3))\<lparr>chainId := Str ''solana'', raw_pairAddress := Str ''0xS''\<rparr>]\<rparr>"

section \<open>Numbers and strings\<close>

lemma js_not_lt: "a \<noteq> NaN \<Longrightarrow> b \<noteq> NaN \<Longrightarrow> (\<not> js_lt a b) = js_ge a b"
  by (cases a; cases b) (auto simp: js_ge_def)

lemma js_not_le: "a \<noteq> NaN \<Longrightarrow> b \<noteq> NaN \<Longrightarrow> (\<not> js_le a b) = js_gt a b"
  by (cases a; cases b) (auto simp: js_gt_def)

lemma js_abs_NaN: "(js_abs c = NaN) = (c = NaN)"
  by (cases c) auto

lemma js_ge_refl: "a \<noteq> NaN \<Longrightarrow> js_ge a a"
  by (cases a) (auto simp: js_ge_def)

text \<open>A setting built as \<open>parseFloat(..) || d\<close> is never \<open>NaN\<close>.\<close>

lemma num_or_NaN: "d \<noteq> NaN \<Longrightarrow> num_or x d \<noteq> NaN"
  by (simp add: num_or_def)

lemma starts_with_iff: "starts_with s w = (\<exists>q. s = w @ q)"
  by (induction s w rule: starts_with.induct) auto

text \<open>\<open>str_includes\<close> decides the substring relation.\<close>

lemma str_includes_iff: "str_includes s w = (\<exists>p q. s = p @ w @ q)"
proof (induction s)
  case Nil
  then show ?case by auto
next
  case (Cons d s)
  show ?case
  proof
    assume "str_includes (d # s) w"
    then consider "starts_with (d # s) w" | "str_includes s w" by auto
    then show "\<exists>p q. d # s = p @ w @ q"
    proof cases
      case 1
      then obtain q where "d # s = w @ q" by (auto simp: starts_with_iff)
      then have "d # s = [] @ w @ q" by simp
      then show ?thesis by blast
    next
      case 2
      then obtain p q where "s = p @ w @ q" using Cons.IH by auto
      then have "d # s = (d # p) @ w @ q" by simp
      then show ?thesis by blast
    qed
  next
    assume "\<exists>p q. d # s = p @ w @ q"
    then obtain p q where pq: "d # s = p @ w @ q" by blast
    show "str_includes (d # s) w"
    proof (cases p)
      case Nil
      with pq have "starts_with (d # s) w" by (auto simp: starts_with_iff)
      then show ?thesis by simp
    next
      case (Cons d' p')
      with pq have "s = p' @ w @ q" by simp
      then have "str_includes s w" using Cons.IH by blast
      then show ?thesis by simp
    qed
  qed
qed

section \<open>The opportunity filter\<close>

text \<open>
  C2. On a candidate whose symbol is a string and whose four figures are Numbers other than
  \<open>NaN\<close> (the candidates of the feed are such), under thresholds other than \<open>NaN\<close> (the
  constructor builds each as \<open>parseFloat(..) || d\<close>), \<open>isGoodOpportunity\<close> returns true exactly
  when all seven conditions hold: volume, absolute price change, liquidity and market cap at
  or above their thresholds, no blacklist word occurring in the lowercased symbol, no
  position held under the address, and a price change above zero. A value equal to its
  threshold passes each of the four comparisons, and the last test is strict: a price change
  of zero fails it.
\<close>

theorem isGoodOpportunity_iff:
  assumes "symbol tok = Str sy"
    and "volume24h tok = Num v" and "priceChange24h tok = Num c"
    and "liquidity tok = Num l" and "marketCap tok = Num m"
    and "v \<noteq> NaN" and "c \<noteq> NaN" and "l \<noteq> NaN" and "m \<noteq> NaN"
    and "minVolume24h cfg \<noteq> NaN" and "minPriceChange cfg \<noteq> NaN"
    and "minLiquidity cfg \<noteq> NaN" and "minMarketCap cfg \<noteq> NaN"
  shows "isGoodOpportunity rt cfg s tok =
     Inr (js_ge v (minVolume24h cfg) \<and> js_ge (js_abs c) (minPriceChange cfg) \<and>
          js_ge l (minLiquidity cfg) \<and> js_ge m (minMarketCap cfg) \<and>
          (\<forall>word \<in> set (blacklist cfg). \<not> (\<exists>p q. toLowerCase rt sy = p @ word @ q)) \<and>
          address tok \<notin> fst ` set (positions s) \<and>
          js_gt c (Fin 0))
     \<and> js_ge (minVolume24h cfg) (minVolume24h cfg)
     \<and> js_ge (minPriceChange cfg) (minPriceChange cfg)
     \<and> js_ge (minLiquidity cfg) (minLiquidity cfg)
     \<and> js_ge (minMarketCap cfg) (minMarketCap cfg)
     \<and> \<not> js_gt (Fin 0) (Fin 0)"
proof -
  have v: "(\<not> js_lt v (minVolume24h cfg)) = js_ge v (minVolume24h cfg)"
    using assms by (simp add: js_not_lt)
  have c: "(\<not> js_lt (js_abs c) (minPriceChange cfg)) = js_ge (js_abs c) (minPriceChange cfg)"
    using assms by (simp add: js_not_lt js_abs_NaN)
  have l: "(\<not> js_lt l (minLiquidity cfg)) = js_ge l (minLiquidity cfg)"
    using assms by (simp add: js_not_lt)
  have m: "(\<not> js_lt m (minMarketCap cfg)) = js_ge m (minMarketCap cfg)"
    using assms by (simp add: js_not_lt)
  have z: "(\<not> js_le c (Fin 0)) = js_gt c (Fin 0)"
    using assms by (simp add: js_not_le)
  have main: "isGoodOpportunity rt cfg s tok =
     Inr (\<not> js_lt v (minVolume24h cfg) \<and> \<not> js_lt (js_abs c) (minPriceChange cfg) \<and>
          \<not> js_lt l (minLiquidity cfg) \<and> \<not> js_lt m (minMarketCap cfg) \<and>
          (\<forall>word \<in> set (blacklist cfg). \<not> str_includes (toLowerCase rt sy) word) \<and>
          \<not> has (positions s) (address tok) \<and> \<not> js_le c (Fin 0))"
    using assms(1-5) by (simp add: isGoodOpportunity_def list_ex_iff)
  show ?thesis
    unfolding main v c l m z
    using assms by (simp add: js_ge_refl js_gt_def has_def str_includes_iff)
qed

theorem isGoodOpportunity_iff_witness:
  "symbol ex_foo = Str ''FOO'' \<and> volume24h ex_foo = Num (Fin 80000) \<and>
   priceChange24h ex_foo = Num (Fin 12) \<and> liquidity ex_foo = Num (Fin 150000) \<and>
   marketCap ex_foo = Num (Fin 200000) \<and>
   minVolume24h ex_cfg \<noteq> NaN \<and> minPriceChange ex_cfg \<noteq> NaN \<and>
   minLiquidity ex_cfg \<noteq> NaN \<and> minMarketCap ex_cfg \<noteq> NaN \<and>
   isGoodOpportunity ex_rt ex_cfg ex_empty ex_foo =
     Inr (js_ge (Fin 80000) (Fin 50000) \<and> js_ge (js_abs (Fin 12)) (Fin 5) \<and>
          js_ge (Fin 150000) (Fin 100000) \<and> js_ge (Fin 200000) (Fin 100000) \<and>
          (\<forall>word \<in> set [''meme'', ''scam'', ''inu'', ''doge''].
              \<not> (\<exists>p q. toLowerCase ex_rt ''FOO'' = p @ word @ q)) \<and>
          Str ''0xA'' \<notin> fst ` set [] \<and> js_gt (Fin 12) (Fin 0))"
  using isGoodOpportunity_iff [where tok = ex_foo and sy = "''FOO''" and v = "Fin 80000"
      and c = "Fin 12" and l = "Fin 150000" and m = "Fin 200000" and cfg = ex_cfg
      and rt = ex_rt and s = ex_empty]
  by (simp add: ex_foo_def ex_cfg_def ex_empty_def)

section \<open>Execution failures\<close>

lemma swap_disj:
  "(\<exists>e. swap w a b amt d s = (Inl e, s)) \<or>
   (\<exists>r. swap w a b amt d s = (Inr r, s\<lparr>tradesLog := tradesLog s @ [SwapLine r]\<rparr>))"
  by (simp add: swap_def Let_def split: sum.split)

lemma swap_cases:
  obtains (fail) e where "swap w a b amt d s = (Inl e, s)"
  | (ok) r where "swap w a b amt d s = (Inr r, s\<lparr>tradesLog := tradesLog s @ [SwapLine r]\<rparr>)"
  using swap_disj [of w a b amt d s] by blast

lemma ex_mint:
  "getMintAddress (Str ''Es9vMFrzaCERmJfrF4H2FYD4KCoNkY11McCe8BenwNYB'') =
     Inr ''Es9vMFrzaCERmJfrF4H2FYD4KCoNkY11McCe8BenwNYB''"
  by (simp add: getMintAddress_def alnum_def)

lemma usdc_mint: "getMintAddress (Str ''USDC'') = Inr ''EPjFWdd5AufqSSqeM2qN1xzybapC8G4wEGGkZwyTDt1v''"
  by (simp add: getMintAddress_def alnum_def tokenMints_def toUpperCase_def upper_char_def)

lemma foo_mint: "getMintAddress (Str ''0xA'') = Inl ExecutionError"
  by (simp add: getMintAddress_def alnum_def tokenMints_def toUpperCase_def upper_char_def)

text \<open>
  C3. When the swap of an open attempt fails (a dry run simulates the fill and has no swap
  that could fail), \<open>enterPosition\<close> returns the state it was given: no position is
  inserted, and neither file is written. When the swap of a close attempt fails,
  \<open>exitPosition\<close> returns the state it was given: the position stays in the Map as it was.
\<close>

theorem failed_execution_leaves_state:
  "(\<not> dryRun cfg \<and>
    fst (swap w (Str ''USDC'') (address tok) (js_mul (positionSize cfg) (Fin 1000000))
           (dryRun cfg) s) = Inl e
      \<longrightarrow> enterPosition rt cfg w tok s = s) \<and>
   (fst (swap w addr (Str ''USDC'')
           (js_floor (js_mul (toNumber rt (amount pos)) (Fin 1000000))) (dryRun cfg) s) = Inl e'
      \<longrightarrow> exitPosition rt cfg w addr pos reason s = s)"
proof (intro conjI impI)
  assume a: "\<not> dryRun cfg \<and>
    fst (swap w (Str ''USDC'') (address tok) (js_mul (positionSize cfg) (Fin 1000000))
           (dryRun cfg) s) = Inl e"
  show "enterPosition rt cfg w tok s = s"
  proof (cases rule: swap_cases [of w "Str ''USDC''" "address tok"
        "js_mul (positionSize cfg) (Fin 1000000)" "dryRun cfg" s])
    case (fail e)
    with a show ?thesis by (simp add: enterPosition_def)
  next
    case (ok r)
    with a show ?thesis by simp
  qed
next
  assume a: "fst (swap w addr (Str ''USDC'')
           (js_floor (js_mul (toNumber rt (amount pos)) (Fin 1000000))) (dryRun cfg) s) = Inl e'"
  show "exitPosition rt cfg w addr pos reason s = s"
  proof (cases rule: swap_cases [of w addr "Str ''USDC''"
        "js_floor (js_mul (toNumber rt (amount pos)) (Fin 1000000))" "dryRun cfg" s])
    case (fail e)
    with a show ?thesis by (simp add: exitPosition_def)
  next
    case (ok r)
    with a show ?thesis by simp
  qed
qed

theorem failed_execution_leaves_state_witness:
  "\<not> dryRun ex_live \<and>
   fst (swap ex_world (Str ''USDC'') (address ex_foo) (js_mul (positionSize ex_live) (Fin 1000000))
          (dryRun ex_live) ex_empty) = Inl ExecutionError \<and>
   enterPosition ex_rt ex_live ex_world ex_foo ex_empty = ex_empty \<and>
   fst (swap ex_world (pos_address ex_pos) (Str ''USDC'')
          (js_floor (js_mul (toNumber ex_rt (amount ex_pos)) (Fin 1000000)))
          (dryRun ex_live) ex_held) = Inl ExecutionError \<and>
   exitPosition ex_rt ex_live ex_world (pos_address ex_pos) ex_pos
      (StopLossTriggered (Fin (9 / 10))) ex_held = ex_held"
  using failed_execution_leaves_state [of ex_live ex_world ex_foo ex_empty ExecutionError ex_rt
      "pos_address ex_pos" ex_pos ExecutionError "StopLossTriggered (Fin (9 / 10))"]
    failed_execution_leaves_state [of ex_live ex_world ex_foo ex_held ExecutionError ex_rt
      "pos_address ex_pos" ex_pos ExecutionError "StopLossTriggered (Fin (9 / 10))"]
  by (simp add: swap_def ex_mint usdc_mint foo_mint ex_live_def ex_cfg_def ex_world_def
      ex_foo_def ex_pos_def)

section \<open>The trade log on entry\<close>

text \<open>
  C4. The claim asks for an \<open>ENTRY\<close> record in the trade log after every successful open.
  At the scenario of the specification (default settings in a dry run, candidate \<open>FOO\<close> at
  price 1, empty store) \<open>enterPosition\<close> inserts the position and writes the snapshot, and
  the trade log is as empty as before: \<open>enterPosition\<close> has no call of \<open>logTrade\<close>.
\<close>

theorem enterPosition_writes_no_entry_record:
  "enterPosition ex_rt ex_cfg ex_world ex_foo ex_empty =
     \<lparr>positions =
        [(Str ''0xA'',
          \<lparr>token = Str ''FOO'', pos_address = Str ''0xA'', entryPrice = Num (Fin 1),
           entryTime = 1000, amount = Num (Fin 10), usdcInvested = Num (Fin 10),
           pos_signature = ''DRY_RUN'', pos_stopLoss = Num (Fin (9 / 10))\<rparr>)],
      positionsFile =
        Some [\<lparr>token = Str ''FOO'', pos_address = Str ''0xA'', entryPrice = Num (Fin 1),
               entryTime = 1000, amount = Num (Fin 10), usdcInvested = Num (Fin 10),
               pos_signature = ''DRY_RUN'', pos_stopLoss = Num (Fin (9 / 10))\<rparr>],
      tradesLog = []\<rparr>"
  by (simp add: enterPosition_def ex_rt_def ex_cfg_def ex_world_def ex_foo_def ex_empty_def
      js_gt_def js_sub_def map_set_def savePositions_def jsonPosition_def Let_def)

section \<open>The exit rules\<close>

text \<open>
  C1 (as stated) fails. Five hours after its entry at price 1 with the stop-loss at 0.90,
  the price of the position is 0.80: the stop-loss rule and the time rule both match, the
  position is closed, and the \<open>EXIT\<close> record carries the reason of the time exit.
\<close>

theorem stop_loss_and_time_exit_counterexample:
  "js_le (Fin (4 / 5)) (toNumber ex_rt (pos_stopLoss ex_pos)) \<and>
   now ex_late - entryTime ex_pos > 4 * 60 * 60 * 1000 \<and>
   js_lt (js_mul (js_div (js_sub (Fin (4 / 5)) (toNumber ex_rt (entryPrice ex_pos)))
                    (toNumber ex_rt (entryPrice ex_pos))) (Fin 100)) (Fin 20) \<and>
   getTokenData ex_rt ex_late (pos_address ex_pos) =
     Some \<lparr>td_price = Fin (4 / 5), td_priceChange24h = Fin 12, td_volume24h = Fin 80000,
           td_liquidity = Fin 150000\<rparr> \<and>
   checkPosition ex_rt ex_cfg ex_late (pos_address ex_pos) ex_pos ex_held =
     Inr \<lparr>positions = [], positionsFile = Some [],
          tradesLog =
            [SwapLine
               \<lparr>signature = ''TX1'', inputAmount = Fin 10, outputAmount = Fin 8,
                priceImpact = Fin 0, executionTime = 5, timestamp = 18000000,
                inputToken = Str ''Es9vMFrzaCERmJfrF4H2FYD4KCoNkY11McCe8BenwNYB'',
                outputToken = Str ''USDC'', res_dryRun = True\<rparr>,
             TradeLine 18000000
               \<lparr>tr_type = ''EXIT'', tr_token = Str ''FOO'',
                tr_reason = TimeExit (Fin (- 20)), tr_entryPrice = Num (Fin 1),
                tr_entryTime = 0, tr_exitTime = 18000000, tr_invested = Num (Fin 10),
                tr_finalValue = Fin 8, tr_pnl = Fin (- 2), tr_pnlPercent = Fin (- 20),
                tr_signature = ''TX1''\<rparr>]\<rparr>"
proof -
  have d: "getTokenData ex_rt ex_late (pos_address ex_pos) =
     Some \<lparr>td_price = Fin (4 / 5), td_priceChange24h = Fin 12, td_volume24h = Fin 80000,
           td_liquidity = Fin 150000\<rparr>"
    by (simp add: getTokenData_def ex_late_def ex_quote_def num_or_def)
  have sig: "exitSignal ex_rt ex_late (Fin (4 / 5)) ex_pos = Inr (True, TimeExit (Fin (- 20)))"
    by (simp add: exitSignal_def ex_late_def ex_pos_def js_sub_def js_gt_def)
  have sw: "swap ex_late (Str ''Es9vMFrzaCERmJfrF4H2FYD4KCoNkY11McCe8BenwNYB'') (Str ''USDC'') amt True ex_held =
    (Inr \<lparr>signature = ''TX1'', inputAmount = Fin 10, outputAmount = Fin 8,
                priceImpact = Fin 0, executionTime = 5, timestamp = 18000000,
                inputToken = Str ''Es9vMFrzaCERmJfrF4H2FYD4KCoNkY11McCe8BenwNYB'',
                outputToken = Str ''USDC'', res_dryRun = True\<rparr>,
     ex_held\<lparr>tradesLog := [SwapLine \<lparr>signature = ''TX1'', inputAmount = Fin 10, outputAmount = Fin 8,
                priceImpact = Fin 0, executionTime = 5, timestamp = 18000000,
                inputToken = Str ''Es9vMFrzaCERmJfrF4H2FYD4KCoNkY11McCe8BenwNYB'',
                outputToken = Str ''USDC'', res_dryRun = True\<rparr>]\<rparr>)" for amt
    by (simp add: swap_def ex_mint usdc_mint ex_late_def ex_fill_def ex_held_def Let_def)
  have ex: "exitPosition ex_rt ex_cfg ex_late (pos_address ex_pos) ex_pos (TimeExit (Fin (- 20))) ex_held =
     \<lparr>positions = [], positionsFile = Some [],
          tradesLog =
            [SwapLine
               \<lparr>signature = ''TX1'', inputAmount = Fin 10, outputAmount = Fin 8,
                priceImpact = Fin 0, executionTime = 5, timestamp = 18000000,
                inputToken = Str ''Es9vMFrzaCERmJfrF4H2FYD4KCoNkY11McCe8BenwNYB'',
                outputToken = Str ''USDC'', res_dryRun = True\<rparr>,
             TradeLine 18000000
               \<lparr>tr_type = ''EXIT'', tr_token = Str ''FOO'',
                tr_reason = TimeExit (Fin (- 20)), tr_entryPrice = Num (Fin 1),
                tr_entryTime = 0, tr_exitTime = 18000000, tr_invested = Num (Fin 10),
                tr_finalValue = Fin 8, tr_pnl = Fin (- 2), tr_pnlPercent = Fin (- 20),
                tr_signature = ''TX1''\<rparr>]\<rparr>"
    unfolding exitPosition_def
    apply (simp add: ex_cfg_def)
    apply (simp add: ex_pos_def sw)
    apply (simp add: ex_held_def ex_late_def ex_pos_def Let_def js_sub_def map_delete_def savePositions_def logTrade_def)
    done
  show ?thesis
    apply (intro conjI)
    apply (simp add: ex_pos_def)
    apply (simp add: ex_late_def ex_pos_def)
    apply (simp add: ex_pos_def js_sub_def)
    apply (rule d)
    apply (simp add: checkPosition_def d sig ex)
    done
qed

text \<open>
  The three checks are made one after the other and none of them ends the evaluation: an
  exit is signalled when at least one matches, and the reason is that of the last check
  that matched. When the stop-loss check matches a stored stop-loss that is no Number, the
  evaluation throws.
\<close>

lemma exitSignal_eq:
  "exitSignal rt w currentPrice pos =
    (let pnl = js_mul (js_div (js_sub currentPrice (toNumber rt (entryPrice pos)))
                         (toNumber rt (entryPrice pos))) (Fin 100);
         a = js_le currentPrice (toNumber rt (pos_stopLoss pos));
         b = (now w - entryTime pos > 4 * 60 * 60 * 1000 \<and> js_lt pnl (Fin 20));
         c = js_gt pnl (Fin 50)
     in if a \<and> \<not> hasToFixed (pos_stopLoss pos) then Inl TypeError
        else Inr (a \<or> b \<or> c,
                  if c then ProfitTaking pnl
                  else if b then TimeExit pnl
                  else if a then StopLossTriggered (toNumber rt (pos_stopLoss pos))
                  else NoReason))"
  by (cases "pos_stopLoss pos") (auto simp: exitSignal_def Let_def)

lemma has_map_delete: "\<not> has (map_delete k ps) k"
  by (simp add: has_def map_delete_def delete_keys)

lemma exitPosition_records:
  assumes "fst (swap w addr (Str ''USDC'')
             (js_floor (js_mul (toNumber rt (amount pos)) (Fin 1000000))) (dryRun cfg) s) = Inr res"
  shows "(\<exists>t. last (tradesLog (exitPosition rt cfg w addr pos reason s)) = TradeLine (now w) t \<and>
              tr_type t = ''EXIT'' \<and> tr_reason t = reason) \<and>
         \<not> has (positions (exitPosition rt cfg w addr pos reason s)) addr"
proof (cases rule: swap_cases [of w addr "Str ''USDC''"
        "js_floor (js_mul (toNumber rt (amount pos)) (Fin 1000000))" "dryRun cfg" s])
  case (fail e)
  with assms show ?thesis by simp
next
  case (ok r)
  then show ?thesis
    by (simp add: exitPosition_def Let_def logTrade_def savePositions_def has_map_delete)
qed

text \<open>
  C1 (as amended). For a position whose current price is found and whose stored stop-loss
  is a Number, \<open>checkPosition\<close> attempts the close exactly when at least one of the three
  rules matches, and hands \<open>exitPosition\<close> the reason of the last rule that matched: profit
  taking if the gain is above 50, otherwise time exit if the position is older than four
  hours with a gain below 20, otherwise stop loss. When the swap of the close succeeds, the
  last line of the trade log is the \<open>EXIT\<close> record with that reason, and the position is
  gone from the Map.
\<close>

theorem checkPosition_last_match:
  assumes "getTokenData rt w addr = Some d" and "pos_stopLoss pos = Num sl"
  shows "let currentPrice = td_price d;
             pnl = js_mul (js_div (js_sub currentPrice (toNumber rt (entryPrice pos)))
                             (toNumber rt (entryPrice pos))) (Fin 100);
             a = js_le currentPrice sl;
             b = (now w - entryTime pos > 4 * 60 * 60 * 1000 \<and> js_lt pnl (Fin 20));
             c = js_gt pnl (Fin 50);
             reason = (if c then ProfitTaking pnl else if b then TimeExit pnl
                       else StopLossTriggered sl)
         in checkPosition rt cfg w addr pos s =
              Inr (if a \<or> b \<or> c then exitPosition rt cfg w addr pos reason s else s) \<and>
            (fst (swap w addr (Str ''USDC'')
                    (js_floor (js_mul (toNumber rt (amount pos)) (Fin 1000000))) (dryRun cfg) s) = Inr res
               \<longrightarrow> (\<exists>t. last (tradesLog (exitPosition rt cfg w addr pos reason s)) = TradeLine (now w) t \<and>
                         tr_type t = ''EXIT'' \<and> tr_reason t = reason) \<and>
                   \<not> has (positions (exitPosition rt cfg w addr pos reason s)) addr)"
proof -
  have chk: "checkPosition rt cfg w addr pos s =
       (case exitSignal rt w (td_price d) pos of
            Inl e \<Rightarrow> Inl e
          | Inr (shouldExit, exitReason) \<Rightarrow>
              if shouldExit then Inr (exitPosition rt cfg w addr pos exitReason s) else Inr s)"
    using assms(1) by (simp add: checkPosition_def)
  show ?thesis
    unfolding Let_def chk exitSignal_eq
    using assms(2) exitPosition_records [of w addr rt pos cfg s res]
    by auto
qed


theorem checkPosition_last_match_witness:
  "getTokenData ex_rt ex_late (pos_address ex_pos) =
     Some \<lparr>td_price = Fin (4 / 5), td_priceChange24h = Fin 12, td_volume24h = Fin 80000,
           td_liquidity = Fin 150000\<rparr> \<and>
   pos_stopLoss ex_pos = Num (Fin (9 / 10)) \<and>
   fst (swap ex_late (pos_address ex_pos) (Str ''USDC'')
          (js_floor (js_mul (toNumber ex_rt (amount ex_pos)) (Fin 1000000))) (dryRun ex_cfg) ex_held) =
     Inr \<lparr>signature = ''TX1'', inputAmount = Fin 10, outputAmount = Fin 8,
          priceImpact = Fin 0, executionTime = 5, timestamp = 18000000,
          inputToken = Str ''Es9vMFrzaCERmJfrF4H2FYD4KCoNkY11McCe8BenwNYB'',
          outputToken = Str ''USDC'', res_dryRun = True\<rparr> \<and>
   checkPosition ex_rt ex_cfg ex_late (pos_address ex_pos) ex_pos ex_held =
     Inr (exitPosition ex_rt ex_cfg ex_late (pos_address ex_pos) ex_pos (TimeExit (Fin (- 20))) ex_held) \<and>
   (\<exists>t. last (tradesLog (exitPosition ex_rt ex_cfg ex_late (pos_address ex_pos) ex_pos
                         (TimeExit (Fin (- 20))) ex_held)) = TradeLine (now ex_late) t \<and>
        tr_type t = ''EXIT'' \<and> tr_reason t = TimeExit (Fin (- 20)))"
proof -
  have h1: "getTokenData ex_rt ex_late (pos_address ex_pos) =
     Some \<lparr>td_price = Fin (4 / 5), td_priceChange24h = Fin 12, td_volume24h = Fin 80000,
           td_liquidity = Fin 150000\<rparr>"
    by code_simp
  have h2: "pos_stopLoss ex_pos = Num (Fin (9 / 10))"
    by (simp add: ex_pos_def)
  have h3: "fst (swap ex_late (pos_address ex_pos) (Str ''USDC'')
          (js_floor (js_mul (toNumber ex_rt (amount ex_pos)) (Fin 1000000))) (dryRun ex_cfg) ex_held) =
     Inr \<lparr>signature = ''TX1'', inputAmount = Fin 10, outputAmount = Fin 8,
          priceImpact = Fin 0, executionTime = 5, timestamp = 18000000,
          inputToken = Str ''Es9vMFrzaCERmJfrF4H2FYD4KCoNkY11McCe8BenwNYB'',
          outputToken = Str ''USDC'', res_dryRun = True\<rparr>"
    by code_simp
  have pnl: "js_mul (js_div (js_sub (Fin (4 / 5)) (toNumber ex_rt (entryPrice ex_pos)))
                             (toNumber ex_rt (entryPrice ex_pos))) (Fin 100) = Fin (- 20)"
    by (simp add: ex_pos_def js_sub_def)
  have age: "now ex_late - entryTime ex_pos > 4 * 60 * 60 * 1000"
    by (simp add: ex_late_def ex_pos_def)
  from checkPosition_last_match [OF h1 h2, where cfg = ex_cfg and s = ex_held] h3 pnl age
  have "checkPosition ex_rt ex_cfg ex_late (pos_address ex_pos) ex_pos ex_held =
     Inr (exitPosition ex_rt ex_cfg ex_late (pos_address ex_pos) ex_pos (TimeExit (Fin (- 20))) ex_held) \<and>
   (\<exists>t. last (tradesLog (exitPosition ex_rt ex_cfg ex_late (pos_address ex_pos) ex_pos
                         (TimeExit (Fin (- 20))) ex_held)) = TradeLine (now ex_late) t \<and>
        tr_type t = ''EXIT'' \<and> tr_reason t = TimeExit (Fin (- 20)))"
    by (simp add: Let_def js_gt_def)
  with h1 h2 h3 show ?thesis by blast
qed

section \<open>Missing and malformed fields\<close>

lemma js_lt_NInf: "js_lt x NInf = False"
  by (cases x) auto

text \<open>
  C5 (as stated) fails. With the volume missing, the comparison with the threshold is a
  comparison with \<open>NaN\<close> and is false, so the check does not reject: the candidate
  qualifies. With the symbol missing, \<open>toLowerCase\<close> throws.
\<close>

theorem missing_field_passes_counterexample:
  "isGoodOpportunity ex_rt ex_cfg ex_empty (ex_foo\<lparr>volume24h := Undefined\<rparr>) = Inr True \<and>
   isGoodOpportunity ex_rt ex_cfg ex_empty (ex_foo\<lparr>symbol := Undefined\<rparr>) = Inl TypeError"
  by (simp add: isGoodOpportunity_def ex_rt_def ex_cfg_def ex_empty_def ex_foo_def
      asciiLower_def lower_char_def has_def)

text \<open>
  C5 (as amended). \<open>isGoodOpportunity\<close> is a function of its arguments. On a candidate whose
  symbol is a string it returns a boolean and does not throw: the boolean is the conjunction
  of the seven conditions, each threshold condition being "the figure is not below the
  threshold". On a candidate whose symbol is not a string it returns false when a figure is
  below its threshold and throws the \<open>TypeError\<close> of \<open>toLowerCase\<close> otherwise. A figure that
  is missing or converts to \<open>NaN\<close> never raises an error and never rejects: the result is
  then the conjunction of the remaining conditions (a \<open>NaN\<close> price change passes both the
  threshold on its absolute value and the test of its sign). The candidates of the feed
  never carry such a figure: \<open>toCandidate\<close> stores Numbers other than \<open>NaN\<close>, and a figure of
  the feed that does not parse is stored as 0.
\<close>

theorem isGoodOpportunity_missing_fields:
  "(symbol tok = Str sy \<longrightarrow>
      isGoodOpportunity rt cfg s tok =
        Inr (\<not> js_lt (toNumber rt (volume24h tok)) (minVolume24h cfg) \<and>
             \<not> js_lt (js_abs (toNumber rt (priceChange24h tok))) (minPriceChange cfg) \<and>
             \<not> js_lt (toNumber rt (liquidity tok)) (minLiquidity cfg) \<and>
             \<not> js_lt (toNumber rt (marketCap tok)) (minMarketCap cfg) \<and>
             \<not> list_ex (str_includes (toLowerCase rt sy)) (blacklist cfg) \<and>
             \<not> has (positions s) (address tok) \<and>
             \<not> js_le (toNumber rt (priceChange24h tok)) (Fin 0)) \<and>
      (toNumber rt (volume24h tok) = NaN \<longrightarrow>
         isGoodOpportunity rt cfg s tok =
           Inr (\<not> js_lt (js_abs (toNumber rt (priceChange24h tok))) (minPriceChange cfg) \<and>
                \<not> js_lt (toNumber rt (liquidity tok)) (minLiquidity cfg) \<and>
                \<not> js_lt (toNumber rt (marketCap tok)) (minMarketCap cfg) \<and>
                \<not> list_ex (str_includes (toLowerCase rt sy)) (blacklist cfg) \<and>
                \<not> has (positions s) (address tok) \<and>
                \<not> js_le (toNumber rt (priceChange24h tok)) (Fin 0))) \<and>
      (toNumber rt (priceChange24h tok) = NaN \<longrightarrow>
         isGoodOpportunity rt cfg s tok =
           Inr (\<not> js_lt (toNumber rt (volume24h tok)) (minVolume24h cfg) \<and>
                \<not> js_lt (toNumber rt (liquidity tok)) (minLiquidity cfg) \<and>
                \<not> js_lt (toNumber rt (marketCap tok)) (minMarketCap cfg) \<and>
                \<not> list_ex (str_includes (toLowerCase rt sy)) (blacklist cfg) \<and>
                \<not> has (positions s) (address tok))) \<and>
      (toNumber rt (liquidity tok) = NaN \<longrightarrow>
         isGoodOpportunity rt cfg s tok =
           Inr (\<not> js_lt (toNumber rt (volume24h tok)) (minVolume24h cfg) \<and>
                \<not> js_lt (js_abs (toNumber rt (priceChange24h tok))) (minPriceChange cfg) \<and>
                \<not> js_lt (toNumber rt (marketCap tok)) (minMarketCap cfg) \<and>
                \<not> list_ex (str_includes (toLowerCase rt sy)) (blacklist cfg) \<and>
                \<not> has (positions s) (address tok) \<and>
                \<not> js_le (toNumber rt (priceChange24h tok)) (Fin 0))) \<and>
      (toNumber rt (marketCap tok) = NaN \<longrightarrow>
         isGoodOpportunity rt cfg s tok =
           Inr (\<not> js_lt (toNumber rt (volume24h tok)) (minVolume24h cfg) \<and>
                \<not> js_lt (js_abs (toNumber rt (priceChange24h tok))) (minPriceChange cfg) \<and>
                \<not> js_lt (toNumber rt (liquidity tok)) (minLiquidity cfg) \<and>
                \<not> list_ex (str_includes (toLowerCase rt sy)) (blacklist cfg) \<and>
                \<not> has (positions s) (address tok) \<and>
                \<not> js_le (toNumber rt (priceChange24h tok)) (Fin 0)))) \<and>
   ((\<forall>sy. symbol tok \<noteq> Str sy) \<longrightarrow>
      isGoodOpportunity rt cfg s tok =
        (if \<not> js_lt (toNumber rt (volume24h tok)) (minVolume24h cfg) \<and>
            \<not> js_lt (js_abs (toNumber rt (priceChange24h tok))) (minPriceChange cfg) \<and>
            \<not> js_lt (toNumber rt (liquidity tok)) (minLiquidity cfg) \<and>
            \<not> js_lt (toNumber rt (marketCap tok)) (minMarketCap cfg)
         then Inl TypeError else Inr False)) \<and>
   (toCandidate rt pair = Inr c \<longrightarrow>
      (\<exists>v ch l m. volume24h c = Num v \<and> v \<noteq> NaN \<and> priceChange24h c = Num ch \<and> ch \<noteq> NaN \<and>
                  liquidity c = Num l \<and> l \<noteq> NaN \<and> marketCap c = Num m \<and> m \<noteq> NaN) \<and>
      (parseFloat rt (volume_h24 pair) = NaN \<longrightarrow> volume24h c = Num (Fin 0)) \<and>
      (parseFloat rt (priceChange_h24 pair) = NaN \<longrightarrow> priceChange24h c = Num (Fin 0)) \<and>
      (parseFloat rt (liquidity_usd pair) = NaN \<longrightarrow> liquidity c = Num (Fin 0)) \<and>
      (parseFloat rt (fdv pair) = NaN \<longrightarrow> marketCap c = Num (Fin 0)))"
proof (intro conjI)
  show "symbol tok = Str sy \<longrightarrow>
      isGoodOpportunity rt cfg s tok =
        Inr (\<not> js_lt (toNumber rt (volume24h tok)) (minVolume24h cfg) \<and>
             \<not> js_lt (js_abs (toNumber rt (priceChange24h tok))) (minPriceChange cfg) \<and>
             \<not> js_lt (toNumber rt (liquidity tok)) (minLiquidity cfg) \<and>
             \<not> js_lt (toNumber rt (marketCap tok)) (minMarketCap cfg) \<and>
             \<not> list_ex (str_includes (toLowerCase rt sy)) (blacklist cfg) \<and>
             \<not> has (positions s) (address tok) \<and>
             \<not> js_le (toNumber rt (priceChange24h tok)) (Fin 0)) \<and>
      (toNumber rt (volume24h tok) = NaN \<longrightarrow>
         isGoodOpportunity rt cfg s tok =
           Inr (\<not> js_lt (js_abs (toNumber rt (priceChange24h tok))) (minPriceChange cfg) \<and>
                \<not> js_lt (toNumber rt (liquidity tok)) (minLiquidity cfg) \<and>
                \<not> js_lt (toNumber rt (marketCap tok)) (minMarketCap cfg) \<and>
                \<not> list_ex (str_includes (toLowerCase rt sy)) (blacklist cfg) \<and>
                \<not> has (positions s) (address tok) \<and>
                \<not> js_le (toNumber rt (priceChange24h tok)) (Fin 0))) \<and>
      (toNumber rt (priceChange24h tok) = NaN \<longrightarrow>
         isGoodOpportunity rt cfg s tok =
           Inr (\<not> js_lt (toNumber rt (volume24h tok)) (minVolume24h cfg) \<and>
                \<not> js_lt (toNumber rt (liquidity tok)) (minLiquidity cfg) \<and>
                \<not> js_lt (toNumber rt (marketCap tok)) (minMarketCap cfg) \<and>
                \<not> list_ex (str_includes (toLowerCase rt sy)) (blacklist cfg) \<and>
                \<not> has (positions s) (address tok))) \<and>
      (toNumber rt (liquidity tok) = NaN \<longrightarrow>
         isGoodOpportunity rt cfg s tok =
           Inr (\<not> js_lt (toNumber rt (volume24h tok)) (minVolume24h cfg) \<and>
                \<not> js_lt (js_abs (toNumber rt (priceChange24h tok))) (minPriceChange cfg) \<and>
                \<not> js_lt (toNumber rt (marketCap tok)) (minMarketCap cfg) \<and>
                \<not> list_ex (str_includes (toLowerCase rt sy)) (blacklist cfg) \<and>
                \<not> has (positions s) (address tok) \<and>
                \<not> js_le (toNumber rt (priceChange24h tok)) (Fin 0))) \<and>
      (toNumber rt (marketCap tok) = NaN \<longrightarrow>
         isGoodOpportunity rt cfg s tok =
           Inr (\<not> js_lt (toNumber rt (volume24h tok)) (minVolume24h cfg) \<and>
                \<not> js_lt (js_abs (toNumber rt (priceChange24h tok))) (minPriceChange cfg) \<and>
                \<not> js_lt (toNumber rt (liquidity tok)) (minLiquidity cfg) \<and>
                \<not> list_ex (str_includes (toLowerCase rt sy)) (blacklist cfg) \<and>
                \<not> has (positions s) (address tok) \<and>
                \<not> js_le (toNumber rt (priceChange24h tok)) (Fin 0)))"
  proof
    assume sy: "symbol tok = Str sy"
    have main: "isGoodOpportunity rt cfg s tok =
        Inr (\<not> js_lt (toNumber rt (volume24h tok)) (minVolume24h cfg) \<and>
             \<not> js_lt (js_abs (toNumber rt (priceChange24h tok))) (minPriceChange cfg) \<and>
             \<not> js_lt (toNumber rt (liquidity tok)) (minLiquidity cfg) \<and>
             \<not> js_lt (toNumber rt (marketCap tok)) (minMarketCap cfg) \<and>
             \<not> list_ex (str_includes (toLowerCase rt sy)) (blacklist cfg) \<and>
             \<not> has (positions s) (address tok) \<and>
             \<not> js_le (toNumber rt (priceChange24h tok)) (Fin 0))"
      using sy by (simp add: isGoodOpportunity_def Let_def)
    show "isGoodOpportunity rt cfg s tok =
        Inr (\<not> js_lt (toNumber rt (volume24h tok)) (minVolume24h cfg) \<and>
             \<not> js_lt (js_abs (toNumber rt (priceChange24h tok))) (minPriceChange cfg) \<and>
             \<not> js_lt (toNumber rt (liquidity tok)) (minLiquidity cfg) \<and>
             \<not> js_lt (toNumber rt (marketCap tok)) (minMarketCap cfg) \<and>
             \<not> list_ex (str_includes (toLowerCase rt sy)) (blacklist cfg) \<and>
             \<not> has (positions s) (address tok) \<and>
             \<not> js_le (toNumber rt (priceChange24h tok)) (Fin 0)) \<and>
      (toNumber rt (volume24h tok) = NaN \<longrightarrow>
         isGoodOpportunity rt cfg s tok =
           Inr (\<not> js_lt (js_abs (toNumber rt (priceChange24h tok))) (minPriceChange cfg) \<and>
                \<not> js_lt (toNumber rt (liquidity tok)) (minLiquidity cfg) \<and>
                \<not> js_lt (toNumber rt (marketCap tok)) (minMarketCap cfg) \<and>
                \<not> list_ex (str_includes (toLowerCase rt sy)) (blacklist cfg) \<and>
                \<not> has (positions s) (address tok) \<and>
                \<not> js_le (toNumber rt (priceChange24h tok)) (Fin 0))) \<and>
      (toNumber rt (priceChange24h tok) = NaN \<longrightarrow>
         isGoodOpportunity rt cfg s tok =
           Inr (\<not> js_lt (toNumber rt (volume24h tok)) (minVolume24h cfg) \<and>
                \<not> js_lt (toNumber rt (liquidity tok)) (minLiquidity cfg) \<and>
                \<not> js_lt (toNumber rt (marketCap tok)) (minMarketCap cfg) \<and>
                \<not> list_ex (str_includes (toLowerCase rt sy)) (blacklist cfg) \<and>
                \<not> has (positions s) (address tok))) \<and>
      (toNumber rt (liquidity tok) = NaN \<longrightarrow>
         isGoodOpportunity rt cfg s tok =
           Inr (\<not> js_lt (toNumber rt (volume24h tok)) (minVolume24h cfg) \<and>
                \<not> js_lt (js_abs (toNumber rt (priceChange24h tok))) (minPriceChange cfg) \<and>
                \<not> js_lt (toNumber rt (marketCap tok)) (minMarketCap cfg) \<and>
                \<not> list_ex (str_includes (toLowerCase rt sy)) (blacklist cfg) \<and>
                \<not> has (positions s) (address tok) \<and>
                \<not> js_le (toNumber rt (priceChange24h tok)) (Fin 0))) \<and>
      (toNumber rt (marketCap tok) = NaN \<longrightarrow>
         isGoodOpportunity rt cfg s tok =
           Inr (\<not> js_lt (toNumber rt (volume24h tok)) (minVolume24h cfg) \<and>
                \<not> js_lt (js_abs (toNumber rt (priceChange24h tok))) (minPriceChange cfg) \<and>
                \<not> js_lt (toNumber rt (liquidity tok)) (minLiquidity cfg) \<and>
                \<not> list_ex (str_includes (toLowerCase rt sy)) (blacklist cfg) \<and>
                \<not> has (positions s) (address tok) \<and>
                \<not> js_le (toNumber rt (priceChange24h tok)) (Fin 0)))"
      unfolding main by simp
  qed
next
  show "(\<forall>sy. symbol tok \<noteq> Str sy) \<longrightarrow>
      isGoodOpportunity rt cfg s tok =
        (if \<not> js_lt (toNumber rt (volume24h tok)) (minVolume24h cfg) \<and>
            \<not> js_lt (js_abs (toNumber rt (priceChange24h tok))) (minPriceChange cfg) \<and>
            \<not> js_lt (toNumber rt (liquidity tok)) (minLiquidity cfg) \<and>
            \<not> js_lt (toNumber rt (marketCap tok)) (minMarketCap cfg)
         then Inl TypeError else Inr False)"
    by (cases "symbol tok") (simp_all add: isGoodOpportunity_def)
next
  show "toCandidate rt pair = Inr c \<longrightarrow>
      (\<exists>v ch l m. volume24h c = Num v \<and> v \<noteq> NaN \<and> priceChange24h c = Num ch \<and> ch \<noteq> NaN \<and>
                  liquidity c = Num l \<and> l \<noteq> NaN \<and> marketCap c = Num m \<and> m \<noteq> NaN) \<and>
      (parseFloat rt (volume_h24 pair) = NaN \<longrightarrow> volume24h c = Num (Fin 0)) \<and>
      (parseFloat rt (priceChange_h24 pair) = NaN \<longrightarrow> priceChange24h c = Num (Fin 0)) \<and>
      (parseFloat rt (liquidity_usd pair) = NaN \<longrightarrow> liquidity c = Num (Fin 0)) \<and>
      (parseFloat rt (fdv pair) = NaN \<longrightarrow> marketCap c = Num (Fin 0))"
    by (cases "baseToken pair") (auto simp: toCandidate_def num_or_def)
qed

text \<open>The theorem at \<open>FOO\<close> with its four figures missing (it qualifies), at \<open>FOO\<close> with its
  symbol missing (it throws), and at the feed record with no figure (all are stored as 0).\<close>

theorem isGoodOpportunity_missing_fields_witness:
  "symbol ex_bare = Str ''FOO'' \<and>
   toNumber ex_rt (volume24h ex_bare) = NaN \<and> toNumber ex_rt (priceChange24h ex_bare) = NaN \<and>
   toNumber ex_rt (liquidity ex_bare) = NaN \<and> toNumber ex_rt (marketCap ex_bare) = NaN \<and>
   isGoodOpportunity ex_rt ex_cfg ex_empty ex_bare = Inr True \<and>
   symbol (ex_foo\<lparr>symbol := Undefined\<rparr>) = Undefined \<and>
   isGoodOpportunity ex_rt ex_cfg ex_empty (ex_foo\<lparr>symbol := Undefined\<rparr>) = Inl TypeError \<and>
   toCandidate ex_rt ex_blank =
     Inr (ex_foo\<lparr>price := Num (Fin 0), priceChange24h := Num (Fin 0), volume24h := Num (Fin 0),
                 liquidity := Num (Fin 0), marketCap := Num (Fin 0)\<rparr>) \<and>
   parseFloat ex_rt (volume_h24 ex_blank) = NaN \<and>
   parseFloat ex_rt (priceChange_h24 ex_blank) = NaN \<and>
   parseFloat ex_rt (liquidity_usd ex_blank) = NaN \<and> parseFloat ex_rt (fdv ex_blank) = NaN"
proof -
  have sy: "symbol ex_bare = Str ''FOO''"
    by (simp add: ex_bare_def ex_foo_def)
  have c: "toCandidate ex_rt ex_blank =
     Inr (ex_foo\<lparr>price := Num (Fin 0), priceChange24h := Num (Fin 0), volume24h := Num (Fin 0),
                 liquidity := Num (Fin 0), marketCap := Num (Fin 0)\<rparr>)"
    by (simp add: toCandidate_def ex_blank_def ex_foo_def num_or_def)
  have n: "toNumber ex_rt (volume24h ex_bare) = NaN \<and>
      toNumber ex_rt (priceChange24h ex_bare) = NaN \<and>
      toNumber ex_rt (liquidity ex_bare) = NaN \<and> toNumber ex_rt (marketCap ex_bare) = NaN"
    by (simp add: ex_bare_def)
  have b: "\<not> list_ex (str_includes (toLowerCase ex_rt ''FOO'')) (blacklist ex_cfg)"
    by (simp add: ex_rt_def ex_cfg_def asciiLower_def lower_char_def)
  have h: "\<not> has (positions ex_empty) (address ex_bare)"
    by (simp add: has_def ex_empty_def)
  have u: "\<forall>sy. symbol (ex_foo\<lparr>symbol := Undefined\<rparr>) \<noteq> Str sy"
    by simp
  have f: "\<not> js_lt (toNumber ex_rt (volume24h ex_foo)) (minVolume24h ex_cfg) \<and>
      \<not> js_lt (js_abs (toNumber ex_rt (priceChange24h ex_foo))) (minPriceChange ex_cfg) \<and>
      \<not> js_lt (toNumber ex_rt (liquidity ex_foo)) (minLiquidity ex_cfg) \<and>
      \<not> js_lt (toNumber ex_rt (marketCap ex_foo)) (minMarketCap ex_cfg)"
    by (simp add: ex_foo_def ex_cfg_def)
  from isGoodOpportunity_missing_fields [of ex_bare "''FOO''" ex_rt ex_cfg ex_empty ex_blank] sy n b h
  have g: "isGoodOpportunity ex_rt ex_cfg ex_empty ex_bare = Inr True"
    by simp
  from isGoodOpportunity_missing_fields
    [of "ex_foo\<lparr>symbol := Undefined\<rparr>" "''FOO''" ex_rt ex_cfg ex_empty ex_blank] u f
  have t: "isGoodOpportunity ex_rt ex_cfg ex_empty (ex_foo\<lparr>symbol := Undefined\<rparr>) = Inl TypeError"
    by simp
  from sy n c g t show ?thesis
    by (simp add: ex_blank_def)
qed

text \<open>
  The candidates of the feed never carry such a figure: \<open>toCandidate\<close> stores Numbers
  other than \<open>NaN\<close>, a figure that does not parse is stored as 0, and 0 is rejected by
  every threshold above 0.
\<close>

lemma num_or_not_NaN: "num_or x (Fin 0) \<noteq> NaN"
  by (simp add: num_or_def)

lemma toCandidate_numeric:
  assumes "toCandidate rt pair = Inr tok"
  shows "\<exists>p c v l m. price tok = Num p \<and> p \<noteq> NaN \<and> priceChange24h tok = Num c \<and> c \<noteq> NaN \<and>
           volume24h tok = Num v \<and> v \<noteq> NaN \<and> liquidity tok = Num l \<and> l \<noteq> NaN \<and>
           marketCap tok = Num m \<and> m \<noteq> NaN"
  using assms by (auto simp: toCandidate_def num_or_not_NaN split: option.splits)

lemma unparsed_volume_rejected:
  assumes "toCandidate rt pair = Inr tok" and "parseFloat rt (volume_h24 pair) = NaN"
    and "js_gt (minVolume24h cfg) (Fin 0)"
  shows "isGoodOpportunity rt cfg s tok = Inr False"
  using assms
  by (auto simp: toCandidate_def isGoodOpportunity_def num_or_def js_gt_def split: option.splits)

section \<open>The capacity limit\<close>

lemma positions_savePositions: "positions (savePositions s) = positions s"
  by (simp add: savePositions_def)

lemma positions_swap: "positions (snd (swap w a b amt d s)) = positions s"
  by (cases rule: swap_cases [of w a b amt d s]) simp_all

lemma length_map_set: "length (map_set k v ps) \<le> Suc (length ps)"
  unfolding map_set_def by (induction ps) auto

lemma enterPosition_size:
  "length (positions (enterPosition rt cfg w tok s)) \<le> Suc (length (positions s))"
proof (cases "dryRun cfg")
  case True
  then show ?thesis
    using length_map_set
    by (simp add: enterPosition_def Let_def positions_savePositions)
next
  case False
  show ?thesis
  proof (cases rule: swap_cases [of w "Str ''USDC''" "address tok"
        "js_mul (positionSize cfg) (Fin 1000000)" "dryRun cfg" s])
    case (fail e)
    with False show ?thesis by (simp add: enterPosition_def)
  next
    case (ok r)
    with False show ?thesis
      using length_map_set
      by (simp add: enterPosition_def Let_def positions_savePositions)
  qed
qed

lemma openLoop_props:
  "openLoop rt cfg ws i toks s = (att, s') \<Longrightarrow>
     int (length (positions s')) \<le> max (int (length (positions s))) (maxPositions cfg) \<and>
     (\<forall>(n, t) \<in> set att. int n < maxPositions cfg) \<and>
     map snd att = take (length att) toks \<and>
     length att \<le> length toks \<and>
     (maxPositions cfg \<le> int (length (positions s)) \<longrightarrow> att = [] \<and> s' = s)"
proof (induction toks arbitrary: i s att s')
  case Nil
  then show ?case by simp
next
  case (Cons tok rest)
  show ?case
  proof (cases "maxPositions cfg \<le> int (length (positions s))")
    case True
    with Cons.prems show ?thesis by simp
  next
    case False
    obtain att1 s1 where rec: "openLoop rt cfg ws (Suc i) rest (enterPosition rt cfg (ws i) tok s) = (att1, s1)"
      by (cases "openLoop rt cfg ws (Suc i) rest (enterPosition rt cfg (ws i) tok s)") auto
    from Cons.prems False rec have att: "att = (length (positions s), tok) # att1" and s': "s' = s1"
      by simp_all
    note ih = Cons.IH [OF rec]
    have sz: "int (length (positions (enterPosition rt cfg (ws i) tok s))) \<le> maxPositions cfg"
      using enterPosition_size [of rt cfg "ws i" tok s] False by linarith
    from ih sz have 1: "int (length (positions s')) \<le> max (int (length (positions s))) (maxPositions cfg)"
      unfolding s' by linarith
    from ih False have 2: "\<forall>(n, t) \<in> set att. int n < maxPositions cfg"
      unfolding att by auto
    from ih have 3: "map snd att = take (length att) (tok # rest)" and 4: "length att \<le> length (tok # rest)"
      unfolding att by simp_all
    from 1 2 3 4 False show ?thesis by simp
  qed
qed

text \<open>A filter that does not throw is the plain filter: it keeps the order of the array.\<close>

lemma filterE_filter: "filterE f xs = Inr ys \<Longrightarrow> ys = filter (\<lambda>x. f x = Inr True) xs"
  by (induction xs arbitrary: ys) (auto split: sum.splits if_splits)

text \<open>
  C6. A scan starts no open attempt while the Map holds \<open>maxPositions\<close> entries or more:
  every call of \<open>enterPosition\<close> is made at a size below the limit, a scan that starts at
  the limit makes none and changes nothing, and the size after the scan is at most the
  larger of the size before and the limit. A scan makes at most three calls, and the
  candidates they are made for are the first candidates of the feed that pass the filter,
  in feed order.
\<close>

theorem scanMarkets_capacity:
  assumes "scanMarkets rt cfg w ws s = (att, s')"
  shows "int (length (positions s')) \<le> max (int (length (positions s))) (maxPositions cfg) \<and>
     (\<forall>(n, t) \<in> set att. int n < maxPositions cfg) \<and>
     (maxPositions cfg \<le> int (length (positions s)) \<longrightarrow> att = [] \<and> s' = s) \<and>
     length att \<le> 3 \<and>
     (att = [] \<or>
      map snd att =
        take (length att)
          (filter (\<lambda>tok. isGoodOpportunity rt cfg s tok = Inr True) (getTrendingTokens rt cfg w)))"
proof (cases "opportunitiesOf rt cfg w s")
  case (Inl e)
  with assms show ?thesis by (simp add: scanMarkets_def)
next
  case (Inr ops)
  show ?thesis
  proof (cases "ops = [] \<or> \<not> list_all (\<lambda>tok. hasToFixed (priceChange24h tok)) ops")
    case True
    with assms Inr have "att = []" and "s' = s" by (auto simp: scanMarkets_def split: if_splits)
    then show ?thesis by simp
  next
    case False
    with assms Inr have loop: "openLoop rt cfg ws 0 (take (min 3 (length ops)) ops) s = (att, s')"
      by (simp add: scanMarkets_def Let_def)
    note p = openLoop_props [OF loop]
    from p have len: "length att \<le> 3" by simp
    from p have "map snd att = take (length att) (take (min 3 (length ops)) ops)" by simp
    also have "\<dots> = take (length att) ops"
    proof -
      from p have "length att \<le> min 3 (length ops)" by simp
      then have "min (length att) (min 3 (length ops)) = length att" by linarith
      then show ?thesis by simp
    qed
    finally have pre: "map snd att = take (length att) ops" .
    from Inr have "ops = filter (\<lambda>tok. isGoodOpportunity rt cfg s tok = Inr True) (getTrendingTokens rt cfg w)"
      unfolding opportunitiesOf_def by (rule filterE_filter)
    with p len pre show ?thesis by blast
  qed
qed

theorem scanMarkets_capacity_witness:
  "scanMarkets ex_parse ex_one ex_feed (\<lambda>i. ex_world) ex_empty =
     ([(0, ex_foo)], enterPosition ex_parse ex_one ex_world ex_foo ex_empty) \<and>
   int (length (positions (enterPosition ex_parse ex_one ex_world ex_foo ex_empty)))
     \<le> max (int (length (positions ex_empty))) (maxPositions ex_one) \<and>
   int 0 < maxPositions ex_one \<and>
   length [(0 :: nat, ex_foo)] \<le> 3"
proof -
  have eq: "scanMarkets ex_parse ex_one ex_feed (\<lambda>i. ex_world) ex_empty =
     ([(0, ex_foo)], enterPosition ex_parse ex_one ex_world ex_foo ex_empty)"
    by code_simp
  from scanMarkets_capacity [OF eq] show ?thesis
    using eq by (simp add: ex_one_def ex_cfg_def ex_empty_def)
qed

section \<open>The stop-loss price\<close>

text \<open>
  No evaluation writes a position: every entry of the Map after \<open>checkPosition\<close>, and after
  the whole walk of \<open>checkPositions\<close>, is an entry of the Map before it. A successful
  \<open>enterPosition\<close> stores, under the address of the candidate, a position whose entry price
  is the price of the candidate and whose stop-loss is the value of the expression
  \<open>price * (1 - stopLoss / 100)\<close>.
\<close>

lemma set_map_delete: "set (map_delete k ps) \<subseteq> set ps"
  by (auto simp: map_delete_def AList.delete_eq)

lemma tradesLog_positions [simp]: "positions (s\<lparr>tradesLog := l\<rparr>) = positions s"
  by simp

lemma exitPosition_subset: "set (positions (exitPosition rt cfg w addr pos reason s)) \<subseteq> set (positions s)"
proof (cases rule: swap_cases [of w addr "Str ''USDC''"
        "js_floor (js_mul (toNumber rt (amount pos)) (Fin 1000000))" "dryRun cfg" s])
  case (fail e)
  then show ?thesis by (simp add: exitPosition_def)
next
  case (ok r)
  then show ?thesis
    using set_map_delete [of addr "positions s"]
    by (simp add: exitPosition_def Let_def logTrade_def positions_savePositions)
qed

lemma checkPosition_subset:
  "checkPosition rt cfg w addr pos s = Inr s' \<Longrightarrow> set (positions s') \<subseteq> set (positions s)"
  using exitPosition_subset [of rt cfg w addr pos _ s]
  by (fastforce simp: checkPosition_def split: option.splits sum.splits if_splits)

lemma checkLoop_subset:
  "set (positions (checkLoop rt cfg ws i entries s)) \<subseteq> set (positions s)"
proof (induction entries arbitrary: i s)
  case Nil
  then show ?case by simp
next
  case (Cons entry rest)
  obtain addr pos where entry: "entry = (addr, pos)" by (cases entry)
  define s1 where "s1 = (case checkPosition rt cfg (ws i) addr pos s of Inl e \<Rightarrow> s | Inr s' \<Rightarrow> s')"
  have "set (positions s1) \<subseteq> set (positions s)"
    unfolding s1_def using checkPosition_subset [of rt cfg "ws i" addr pos s]
    by (cases "checkPosition rt cfg (ws i) addr pos s") auto
  moreover have "set (positions (checkLoop rt cfg ws (Suc i) rest s1)) \<subseteq> set (positions s1)"
    by (rule Cons.IH)
  ultimately show ?case unfolding entry s1_def by auto
qed

lemma map_of_map_set: "map_of (map_set k v ps) k = Some v"
  by (simp add: map_set_def update_conv')

lemma enterPosition_stores:
  assumes "dryRun cfg \<or> fst (swap w (Str ''USDC'') (address tok)
             (js_mul (positionSize cfg) (Fin 1000000)) (dryRun cfg) s) = Inr r"
  shows "\<exists>p. map_of (positions (enterPosition rt cfg w tok s)) (address tok) = Some p \<and>
             entryPrice p = price tok \<and>
             pos_stopLoss p = Num (js_mul (toNumber rt (price tok))
                                     (js_sub (Fin 1) (js_div (stopLoss cfg) (Fin 100))))"
proof (cases "dryRun cfg")
  case True
  then show ?thesis
    by (simp add: enterPosition_def Let_def positions_savePositions map_of_map_set)
next
  case False
  show ?thesis
  proof (cases rule: swap_cases [of w "Str ''USDC''" "address tok"
        "js_mul (positionSize cfg) (Fin 1000000)" "dryRun cfg" s])
    case (fail e)
    with False assms show ?thesis by simp
  next
    case (ok r)
    with False show ?thesis
      by (simp add: enterPosition_def Let_def positions_savePositions map_of_map_set)
  qed
qed

section \<open>A price that does not parse\<close>







section \<open>The snapshot of the positions\<close>

lemma update_fresh: "k \<notin> fst ` set al \<Longrightarrow> AList.update k v al = al @ [(k, v)]"
  by (induction al) auto

lemma fold_map_set:
  "distinct (map pos_address xs) \<Longrightarrow> set (map pos_address xs) \<inter> fst ` set acc = {} \<Longrightarrow>
     fold (\<lambda>pos ps. map_set (pos_address pos) pos ps) xs acc = acc @ map (\<lambda>p. (pos_address p, p)) xs"
proof (induction xs arbitrary: acc)
  case Nil
  then show ?case by simp
next
  case (Cons x xs)
  from Cons.prems have fresh: "pos_address x \<notin> fst ` set acc" by auto
  then have step: "map_set (pos_address x) x acc = acc @ [(pos_address x, x)]"
    by (simp add: map_set_def update_fresh)
  from Cons.prems have d: "distinct (map pos_address xs)" by simp
  from Cons.prems have disj: "set (map pos_address xs) \<inter> fst ` set (acc @ [(pos_address x, x)]) = {}"
    by auto
  show ?case using Cons.IH [OF d disj] step by simp
qed

lemma wellKeyed_entries:
  assumes "wellKeyed ps"
  shows "map (\<lambda>p. (pos_address p, p)) (map snd ps) = ps" and "distinct (map pos_address (map snd ps))"
proof -
  from assms have k: "\<forall>(k, p) \<in> set ps. pos_address p = k"
    by (simp add: wellKeyed_def list_all_iff)
  then have "map (\<lambda>p. (pos_address p, p)) (map snd ps) = map (\<lambda>x. x) ps"
    unfolding map_map by (intro map_cong) auto
  then show "map (\<lambda>p. (pos_address p, p)) (map snd ps) = ps" by simp
  from k have "map pos_address (map snd ps) = map fst ps"
    unfolding map_map by (intro map_cong) auto
  moreover from assms have "distinct (map fst ps)" by (simp add: wellKeyed_def)
  ultimately show "distinct (map pos_address (map snd ps))" by (simp only:)
qed

text \<open>
  C8 (as stated) fails. A feed price that parses to \<open>Infinity\<close> passes the feed filter; in
  a dry run \<open>enterPosition\<close> stores the position with entry price and stop-loss
  \<open>Infinity\<close>. The snapshot holds \<open>null\<close> for both, and so does the reloaded store.
\<close>

theorem snapshot_loses_infinity_counterexample:
  "positions (enterPosition ex_rt ex_cfg ex_world ex_inf ex_empty) =
     [(Str ''0xA'',
       \<lparr>token = Str ''FOO'', pos_address = Str ''0xA'', entryPrice = Num PInf, entryTime = 1000,
        amount = Num (Fin 0), usdcInvested = Num (Fin 10), pos_signature = ''DRY_RUN'',
        pos_stopLoss = Num PInf\<rparr>)] \<and>
   positions (loadPositions
      ((savePositions (enterPosition ex_rt ex_cfg ex_world ex_inf ex_empty))\<lparr>positions := []\<rparr>)) =
     [(Str ''0xA'',
       \<lparr>token = Str ''FOO'', pos_address = Str ''0xA'', entryPrice = Null, entryTime = 1000,
        amount = Num (Fin 0), usdcInvested = Num (Fin 10), pos_signature = ''DRY_RUN'',
        pos_stopLoss = Null\<rparr>)]"
  by code_simp

text \<open>
  C8 (as amended). For a Map whose positions hold only values that JSON can write (no
  \<open>NaN\<close>, no infinity), saving the snapshot and loading it into an empty Map gives the Map
  back: the same addresses in the same order, each with the same position. The other
  hypothesis, \<open>wellKeyed\<close>, holds of every Map the monitor builds, as the lemmas after the
  theorem show.
\<close>

theorem snapshot_roundtrip:
  assumes "wellKeyed (positions s)" and "jsonSafe (positions s)"
  shows "positions (loadPositions ((savePositions s)\<lparr>positions := []\<rparr>)) = positions s"
proof -
  from assms(2) have "map (\<lambda>(addr, pos). jsonPosition (pos\<lparr>pos_address := pos_address pos\<rparr>)) (positions s)
      = map snd (positions s)"
    by (intro map_cong) (auto simp: jsonSafe_def list_all_iff)
  then have written: "positionsFile (savePositions s) = Some (map snd (positions s))"
    by (simp add: savePositions_def)
  have "fold (\<lambda>pos ps. map_set (pos_address pos) pos ps) (map snd (positions s)) []
      = [] @ map (\<lambda>p. (pos_address p, p)) (map snd (positions s))"
    using wellKeyed_entries(2) [OF assms(1)] by (intro fold_map_set) simp_all
  also have "\<dots> = positions s"
    using wellKeyed_entries(1) [OF assms(1)] by simp
  finally show ?thesis using written by (simp add: loadPositions_def)
qed


theorem snapshot_roundtrip_witness:
  "wellKeyed (positions ex_held) \<and> jsonSafe (positions ex_held) \<and>
   positions (loadPositions ((savePositions ex_held)\<lparr>positions := []\<rparr>)) =
     [(Str ''Es9vMFrzaCERmJfrF4H2FYD4KCoNkY11McCe8BenwNYB'', ex_pos)]"
proof -
  have k: "wellKeyed (positions ex_held)"
    by (simp add: wellKeyed_def ex_held_def)
  have j: "jsonSafe (positions ex_held)"
    by (simp add: jsonSafe_def ex_held_def jsonPosition_def ex_pos_def)
  from snapshot_roundtrip [OF k j] k j show ?thesis
    by (simp add: ex_held_def ex_pos_def)
qed

text \<open>\<open>wellKeyed\<close> holds of the empty Map and is kept by every operation on the Map.\<close>

lemma wellKeyed_map_set:
  assumes "wellKeyed ps" and "pos_address v = k"
  shows "wellKeyed (map_set k v ps)"
proof -
  from assms(1) have "distinct (map fst (AList.update k v ps))"
    by (simp add: wellKeyed_def distinct_update)
  moreover from assms have "list_all (\<lambda>(k, p). pos_address p = k) (AList.update k v ps)"
    unfolding wellKeyed_def by (induction ps) auto
  ultimately show ?thesis by (simp add: wellKeyed_def map_set_def)
qed

lemma wellKeyed_map_delete:
  assumes "wellKeyed ps"
  shows "wellKeyed (map_delete k ps)"
proof -
  from assms have "distinct (map fst (AList.delete k ps))"
    by (simp add: wellKeyed_def distinct_delete)
  moreover from assms have "list_all (\<lambda>(k, p). pos_address p = k) (AList.delete k ps)"
    by (auto simp: wellKeyed_def list_all_iff AList.delete_eq)
  ultimately show ?thesis by (simp add: wellKeyed_def map_delete_def)
qed

lemma wellKeyed_enterPosition:
  assumes "wellKeyed (positions s)"
  shows "wellKeyed (positions (enterPosition rt cfg w tok s))"
proof (cases "dryRun cfg")
  case True
  then show ?thesis
    using assms by (simp add: enterPosition_def Let_def positions_savePositions wellKeyed_map_set)
next
  case False
  show ?thesis
  proof (cases rule: swap_cases [of w "Str ''USDC''" "address tok"
        "js_mul (positionSize cfg) (Fin 1000000)" "dryRun cfg" s])
    case (fail e)
    with False assms show ?thesis by (simp add: enterPosition_def)
  next
    case (ok r)
    with False assms show ?thesis
      by (simp add: enterPosition_def Let_def positions_savePositions wellKeyed_map_set)
  qed
qed

lemma wellKeyed_exitPosition:
  assumes "wellKeyed (positions s)"
  shows "wellKeyed (positions (exitPosition rt cfg w addr pos reason s))"
proof (cases rule: swap_cases [of w addr "Str ''USDC''"
        "js_floor (js_mul (toNumber rt (amount pos)) (Fin 1000000))" "dryRun cfg" s])
  case (fail e)
  with assms show ?thesis by (simp add: exitPosition_def)
next
  case (ok r)
  with assms show ?thesis
    by (simp add: exitPosition_def Let_def logTrade_def positions_savePositions wellKeyed_map_delete)
qed

lemma wellKeyed_loadPositions:
  assumes "wellKeyed (positions s)"
  shows "wellKeyed (positions (loadPositions s))"
proof -
  have "wellKeyed ps \<Longrightarrow> wellKeyed (fold (\<lambda>pos ps. map_set (pos_address pos) pos ps) data ps)"
    for data ps
    by (induction data arbitrary: ps) (simp_all add: wellKeyed_map_set)
  with assms show ?thesis by (simp add: loadPositions_def split: option.splits)
qed

lemma wellKeyed_checkPosition:
  assumes "wellKeyed (positions s)" and "checkPosition rt cfg w addr pos s = Inr s'"
  shows "wellKeyed (positions s')"
  using assms wellKeyed_exitPosition [of s rt cfg w addr pos]
  by (auto simp: checkPosition_def split: option.splits sum.splits if_splits)

lemma wellKeyed_checkLoop:
  "wellKeyed (positions s) \<Longrightarrow> wellKeyed (positions (checkLoop rt cfg ws i entries s))"
proof (induction entries arbitrary: i s)
  case Nil
  then show ?case by simp
next
  case (Cons entry rest)
  obtain addr pos where entry: "entry = (addr, pos)" by (cases entry)
  define s1 where "s1 = (case checkPosition rt cfg (ws i) addr pos s of Inl e \<Rightarrow> s | Inr s' \<Rightarrow> s')"
  have "wellKeyed (positions s1)"
    unfolding s1_def using Cons.prems wellKeyed_checkPosition [of s rt cfg "ws i" addr pos]
    by (cases "checkPosition rt cfg (ws i) addr pos s") auto
  then have "wellKeyed (positions (checkLoop rt cfg ws (Suc i) rest s1))"
    by (rule Cons.IH)
  then show ?case unfolding entry s1_def by simp
qed

lemma wellKeyed_openLoop:
  "wellKeyed (positions s) \<Longrightarrow> wellKeyed (positions (snd (openLoop rt cfg ws i toks s)))"
proof (induction toks arbitrary: i s)
  case Nil
  then show ?case by simp
next
  case (Cons tok rest)
  from Cons.prems have "wellKeyed (positions (enterPosition rt cfg (ws i) tok s))"
    by (rule wellKeyed_enterPosition)
  from Cons.IH [OF this, of "Suc i"] Cons.prems show ?case
    by (simp add: split_beta)
qed

lemma wellKeyed_scanMarkets:
  "wellKeyed (positions s) \<Longrightarrow> wellKeyed (positions (snd (scanMarkets rt cfg w ws s)))"
  using wellKeyed_openLoop [of s rt cfg ws 0]
  by (auto simp: scanMarkets_def Let_def split: sum.splits)

section \<open>The candidates of the feed\<close>

lemma removeDuplicates_distinct:
  "distinct (map raw_pairAddress (removeDuplicates seen ps)) \<and>
   set (map raw_pairAddress (removeDuplicates seen ps)) \<inter> set seen = {}"
proof (induction ps arbitrary: seen)
  case Nil
  then show ?case by simp
next
  case (Cons p ps)
  show ?case
  proof (cases "raw_pairAddress p \<in> set seen")
    case True
    with Cons.IH [of seen] show ?thesis by simp
  next
    case False
    with Cons.IH [of "raw_pairAddress p # seen"] show ?thesis by (auto simp: Let_def)
  qed
qed

lemma removeDuplicates_subset: "set (removeDuplicates seen ps) \<subseteq> set ps"
  by (induction ps arbitrary: seen) (auto simp: Let_def)

lemma removeDuplicates_first:
  "k \<notin> set seen \<Longrightarrow>
     find (\<lambda>q. raw_pairAddress q = k) (removeDuplicates seen ps) =
     find (\<lambda>q. raw_pairAddress q = k) ps"
proof (induction ps arbitrary: seen)
  case Nil
  then show ?case by simp
next
  case (Cons p ps)
  show ?case
  proof (cases "raw_pairAddress p \<in> set seen")
    case True
    with Cons.prems have "raw_pairAddress p \<noteq> k" by auto
    with True Cons.IH [OF Cons.prems] show ?thesis by simp
  next
    case False
    show ?thesis
    proof (cases "raw_pairAddress p = k")
      case True
      with False show ?thesis by (simp add: Let_def)
    next
      case neq: False
      with Cons.prems have "k \<notin> set (raw_pairAddress p # seen)" by auto
      from Cons.IH [OF this] False neq show ?thesis by (simp add: Let_def)
    qed
  qed
qed

lemma removeDuplicates_index:
  "removeDuplicates seen ps =
     map (\<lambda>i. ps ! i)
       (filter (\<lambda>i. raw_pairAddress (ps ! i) \<notin> set seen \<union> raw_pairAddress ` set (take i ps))
          [0..<length ps])"
proof (induction ps arbitrary: seen)
  case Nil
  then show ?case by simp
next
  case (Cons p ps)
  have upt: "[0..<length (p # ps)] = 0 # map Suc [0..<length ps]"
    by (simp add: upt_conv_Cons map_Suc_upt del: upt_Suc)
  show ?case
  proof (cases "raw_pairAddress p \<in> set seen")
    case True
    then have "filter (\<lambda>i. raw_pairAddress (ps ! i) \<notin> set seen \<and>
                         raw_pairAddress (ps ! i) \<noteq> raw_pairAddress p \<and>
                         raw_pairAddress (ps ! i) \<notin> raw_pairAddress ` set (take i ps)) xs =
        filter (\<lambda>i. raw_pairAddress (ps ! i) \<notin> set seen \<and>
                    raw_pairAddress (ps ! i) \<notin> raw_pairAddress ` set (take i ps)) xs" for xs
      by (intro filter_cong) auto
    with True Cons.IH [of seen] show ?thesis
      unfolding upt by (simp add: filter_map comp_def del: upt_Suc)
  next
    case False
    have "set seen \<union> raw_pairAddress ` set (take (Suc i) (p # ps)) =
        set (raw_pairAddress p # seen) \<union> raw_pairAddress ` set (take i ps)" for i
      by auto
    with False Cons.IH [of "raw_pairAddress p # seen"] show ?thesis
      unfolding upt by (simp add: filter_map comp_def Let_def conj_ac del: upt_Suc)
  qed
qed

lemma removeDuplicates_spec: "removeDuplicates [] ps = spec_firstOccurrences ps"
  by (simp add: removeDuplicates_index spec_firstOccurrences_def)

lemma fallback_fold_concat:
  "fold (\<lambda>a acc. case g a of None \<Rightarrow> acc | Some ps \<Rightarrow> acc @ filter P ps) addrs acc0 =
     acc0 @ concat (map (\<lambda>a. case g a of None \<Rightarrow> [] | Some ps \<Rightarrow> filter P ps) addrs)"
  by (induction addrs arbitrary: acc0) (auto split: option.splits)

lemma needsFallback_iff: "needsFallback ps = (\<not> (\<exists>p \<in> set ps. chainId p = Str ''base''))"
  by (cases ps) (auto simp: needsFallback_def list_ex_iff isBase_def)

lemma pairs_spec_source:
  "(if needsFallback (spec_trending w) then fallbackPairs rt cfg w (spec_trending w)
    else spec_trending w) = spec_source rt cfg w"
proof -
  have take: "take 2 popularTokens = popularTokens"
    by (simp add: popularTokens_def)
  have lookup: "spec_lookup rt cfg w =
      (\<lambda>a. case tokenPairs w (Str a) of
             None \<Rightarrow> []
           | Some ps \<Rightarrow>
               filter (\<lambda>p. isBase p \<and> js_gt (toNumber rt (volume_h24 p)) (minVolume24h cfg)) ps)"
    by (rule ext) (simp add: spec_lookup_def isBase_def split: option.splits)
  have "fallbackPairs rt cfg w ps =
      spec_firstOccurrences (ps @ concat (map (spec_lookup rt cfg w) popularTokens))" for ps
    unfolding fallbackPairs_def removeDuplicates_spec fallback_fold_concat take lookup
    by (rule refl)
  then show ?thesis
    by (simp add: spec_source_def needsFallback_iff)
qed

lemma mapE_toCandidate_fail:
  "p \<in> set ps \<Longrightarrow> baseToken p = None \<Longrightarrow> \<exists>e. mapE (toCandidate rt) ps = Inl e"
  by (induction ps) (auto simp: toCandidate_def split: sum.splits option.splits)

lemma num_or_gt: "js_gt (num_or x (Fin 0)) (Fin 0) = js_gt x (Fin 0)"
  by (cases x) (auto simp: num_or_def js_gt_def)

lemma num_or_id: "js_gt x (Fin 0) \<Longrightarrow> num_or x (Fin 0) = x"
  by (cases x) (auto simp: num_or_def js_gt_def)

lemma usable_spec_complete:
  "baseToken p = Some bt \<Longrightarrow>
     toCandidate rt p = Inr c \<Longrightarrow> usable rt c = spec_complete rt p bt"
  by (auto simp: toCandidate_def usable_def spec_complete_def num_or_gt)

lemma toCandidate_spec_candidate:
  "baseToken p = Some bt \<Longrightarrow> spec_complete rt p bt \<Longrightarrow>
     toCandidate rt p = Inr (spec_candidate rt p bt)"
  by (simp add: toCandidate_def spec_candidate_def spec_complete_def num_or_id)

lemma mapE_toCandidate_spec:
  "\<not> (\<exists>p \<in> set ps. chainId p = Str ''base'' \<and> baseToken p = None) \<Longrightarrow>
     \<exists>toks. mapE (toCandidate rt) (filter isBase ps) = Inr toks \<and>
            filter (usable rt) toks = spec_candidates rt ps"
proof (induction ps)
  case Nil
  then show ?case by (simp add: spec_candidates_def)
next
  case (Cons p ps)
  from Cons.prems have "\<not> (\<exists>p \<in> set ps. chainId p = Str ''base'' \<and> baseToken p = None)"
    by simp
  from Cons.IH [OF this] obtain toks where
    toks: "mapE (toCandidate rt) (filter isBase ps) = Inr toks"
      "filter (usable rt) toks = spec_candidates rt ps"
    by blast
  have step: "spec_candidates rt (p # ps) =
      (case baseToken p of
         None \<Rightarrow> []
       | Some bt \<Rightarrow>
           if chainId p = Str ''base'' \<and> spec_complete rt p bt
           then [spec_candidate rt p bt] else []) @ spec_candidates rt ps"
    by (simp add: spec_candidates_def)
  show ?case
  proof (cases "isBase p")
    case False
    then have "chainId p \<noteq> Str ''base''"
      by (simp add: isBase_def)
    with step have "spec_candidates rt (p # ps) = spec_candidates rt ps"
      by (simp split: option.splits)
    with False toks show ?thesis
      by simp
  next
    case True
    then have cb: "chainId p = Str ''base''"
      by (simp add: isBase_def)
    with Cons.prems obtain bt where bt: "baseToken p = Some bt"
      by auto
    then obtain c where c: "toCandidate rt p = Inr c"
      by (simp add: toCandidate_def)
    show ?thesis
    proof (cases "spec_complete rt p bt")
      case complete: True
      with toCandidate_spec_candidate [OF bt] c have "c = spec_candidate rt p bt"
        by simp
      with True cb toks step bt c complete usable_spec_complete [OF bt c] show ?thesis
        by simp
    next
      case False
      with True cb toks step bt c usable_spec_complete [OF bt c] show ?thesis
        by simp
    qed
  qed
qed

lemma getTrendingTokens_spec:
  "getTrendingTokens rt cfg w =
     (if \<exists>p \<in> set (spec_source rt cfg w). chainId p = Str ''base'' \<and> baseToken p = None then []
      else spec_candidates rt (spec_source rt cfg w))"
proof -
  have eqn: "getTrendingTokens rt cfg w =
      (if spec_source rt cfg w = [] then []
       else (case mapE (toCandidate rt) (filter isBase (spec_source rt cfg w)) of
               Inl e \<Rightarrow> []
             | Inr toks \<Rightarrow> filter (usable rt) toks))"
    unfolding getTrendingTokens_def Let_def spec_trending_def [symmetric] pairs_spec_source
    by (rule refl)
  show ?thesis
  proof (cases "\<exists>p \<in> set (spec_source rt cfg w). chainId p = Str ''base'' \<and> baseToken p = None")
    case True
    then obtain p where "p \<in> set (filter isBase (spec_source rt cfg w))" "baseToken p = None"
      by (auto simp: isBase_def)
    from mapE_toCandidate_fail [OF this] obtain e where
      "mapE (toCandidate rt) (filter isBase (spec_source rt cfg w)) = Inl e"
      by blast
    with True eqn show ?thesis by simp
  next
    case False
    from mapE_toCandidate_spec [OF this] obtain toks where
      "mapE (toCandidate rt) (filter isBase (spec_source rt cfg w)) = Inr toks"
      "filter (usable rt) toks = spec_candidates rt (spec_source rt cfg w)"
      by blast
    with False eqn show ?thesis
      by (auto simp: spec_candidates_def)
  qed
qed

lemma spec_firstOccurrences_distinct:
  "distinct (map raw_pairAddress (spec_firstOccurrences ps))"
  using removeDuplicates_distinct [of "[]" ps] by (simp add: removeDuplicates_spec)

lemma spec_candidates_pairAddress:
  "map pairAddress (spec_candidates rt ps) =
     map raw_pairAddress
       (filter (\<lambda>p. case baseToken p of
                      None \<Rightarrow> False
                    | Some bt \<Rightarrow> chainId p = Str ''base'' \<and> spec_complete rt p bt) ps)"
  by (induction ps) (auto simp: spec_candidates_def spec_candidate_def split: option.splits)

lemma spec_candidates_distinct:
  "distinct (map raw_pairAddress ps) \<Longrightarrow> distinct (map pairAddress (spec_candidates rt ps))"
  unfolding spec_candidates_pairAddress by (rule distinct_map_filter)

text \<open>
  C9 (as stated) fails. The duplicates are removed inside the fallback only. When the
  trending endpoint answers with records of the chain, they are taken as they come: two
  records of the pool \<open>0xP\<close> give two candidates of that pool.
\<close>

theorem trending_duplicates_counterexample:
  "getTrendingTokens ex_parse ex_cfg ex_twice = [ex_foo, ex_foo\<lparr>price := Num (Fin 2)\<rparr>] \<and>
   map pairAddress (getTrendingTokens ex_parse ex_cfg ex_twice) = [Str ''0xP'', Str ''0xP'']"
  by code_simp

text \<open>
  C9 (as amended). The candidates of a scan are exactly those of the second description.
  When the trending answer holds a record of the chain it is used as received, without
  removing duplicates; otherwise the source is the trending answer followed by the lookups
  of the popular tokens (their records of the chain with a volume above the threshold), of
  which the first record of every pool identifier is kept. From the source, in its order,
  every record of the chain \<open>base\<close> whose price and volume parse to Numbers above 0 and whose
  base token has a symbol and an address gives one candidate, and every other record gives
  none. One case is apart: when a record of the chain in the source has no \<open>baseToken\<close> at
  all, reading it throws and the scan has no candidate. When the trending answer holds no
  record of the chain, the candidates have pairwise different pool identifiers.
\<close>

theorem getTrendingTokens_normalised:
  "getTrendingTokens rt cfg w =
     (if \<exists>p \<in> set (spec_source rt cfg w). chainId p = Str ''base'' \<and> baseToken p = None then []
      else spec_candidates rt (spec_source rt cfg w)) \<and>
   ((\<forall>p \<in> set (spec_trending w). chainId p \<noteq> Str ''base'') \<longrightarrow>
      distinct (map pairAddress (getTrendingTokens rt cfg w)))"
proof
  show eqn: "getTrendingTokens rt cfg w =
     (if \<exists>p \<in> set (spec_source rt cfg w). chainId p = Str ''base'' \<and> baseToken p = None then []
      else spec_candidates rt (spec_source rt cfg w))"
    by (rule getTrendingTokens_spec)
  show "(\<forall>p \<in> set (spec_trending w). chainId p \<noteq> Str ''base'') \<longrightarrow>
      distinct (map pairAddress (getTrendingTokens rt cfg w))"
  proof
    assume "\<forall>p \<in> set (spec_trending w). chainId p \<noteq> Str ''base''"
    then have "spec_source rt cfg w =
        spec_firstOccurrences
          (spec_trending w @ concat (map (spec_lookup rt cfg w) popularTokens))"
      by (simp add: spec_source_def)
    then have "distinct (map raw_pairAddress (spec_source rt cfg w))"
      by (simp add: spec_firstOccurrences_distinct)
    then have "distinct (map pairAddress (spec_candidates rt (spec_source rt cfg w)))"
      by (rule spec_candidates_distinct)
    with eqn show "distinct (map pairAddress (getTrendingTokens rt cfg w))"
      by (simp split: if_splits)
  qed
qed

text \<open>
  The theorem at three feeds. \<open>ex_elsewhere\<close>: the trending answer has no record of the
  chain, so the lookups are used and the second record of the pool \<open>0xP\<close> is dropped.
  \<open>ex_twice\<close>: the trending answer is used as received. \<open>ex_headless\<close>: a record of the
  chain without \<open>baseToken\<close> empties the scan.
\<close>

theorem getTrendingTokens_normalised_witness:
  "list_all (\<lambda>p. chainId p \<noteq> Str ''base'') (spec_trending ex_elsewhere) \<and>
   spec_trending ex_elsewhere \<noteq> [] \<and>
   getTrendingTokens ex_parse ex_cfg ex_elsewhere =
     [ex_foo,
      \<lparr>address = Str ''0xB'', symbol = Str ''BAR'', name = Str ''Bar'', price = Num (Fin 2),
       priceChange24h = Num (Fin 7), volume24h = Num (Fin 90000),
       liquidity = Num (Fin 150000), marketCap = Num (Fin 200000),
       pairAddress = Str ''0xQ''\<rparr>] \<and>
   distinct (map pairAddress (getTrendingTokens ex_parse ex_cfg ex_elsewhere)) \<and>
   getTrendingTokens ex_parse ex_cfg ex_twice = [ex_foo, ex_foo\<lparr>price := Num (Fin 2)\<rparr>] \<and>
   list_ex (\<lambda>p. chainId p = Str ''base'' \<and> baseToken p = None)
     (spec_source ex_parse ex_cfg ex_headless) \<and>
   getTrendingTokens ex_parse ex_cfg ex_headless = []"
proof -
  have t: "spec_trending ex_elsewhere =
      [ex_quote (Num (Fin 3))\<lparr>chainId := Str ''solana'', raw_pairAddress := Str ''0xS''\<rparr>]"
    by (simp add: spec_trending_def ex_elsewhere_def ex_fallback_def ex_world_def)
  then have h: "\<forall>p \<in> set (spec_trending ex_elsewhere). chainId p \<noteq> Str ''base''"
    by (simp add: ex_quote_def)
  have s1: "spec_candidates ex_parse (spec_source ex_parse ex_cfg ex_elsewhere) =
     [ex_foo,
      \<lparr>address = Str ''0xB'', symbol = Str ''BAR'', name = Str ''Bar'', price = Num (Fin 2),
       priceChange24h = Num (Fin 7), volume24h = Num (Fin 90000),
       liquidity = Num (Fin 150000), marketCap = Num (Fin 200000),
       pairAddress = Str ''0xQ''\<rparr>]"
    by code_simp
  have n1: "\<not> (\<exists>p \<in> set (spec_source ex_parse ex_cfg ex_elsewhere).
                chainId p = Str ''base'' \<and> baseToken p = None)"
    unfolding list_ex_iff [symmetric] by code_simp
  have s2: "spec_candidates ex_parse (spec_source ex_parse ex_cfg ex_twice) =
      [ex_foo, ex_foo\<lparr>price := Num (Fin 2)\<rparr>]"
    by code_simp
  have n2: "\<not> (\<exists>p \<in> set (spec_source ex_parse ex_cfg ex_twice).
                chainId p = Str ''base'' \<and> baseToken p = None)"
    unfolding list_ex_iff [symmetric] by code_simp
  have n3: "list_ex (\<lambda>p. chainId p = Str ''base'' \<and> baseToken p = None)
     (spec_source ex_parse ex_cfg ex_headless)"
    by code_simp
  then have n3': "\<exists>p \<in> set (spec_source ex_parse ex_cfg ex_headless).
      chainId p = Str ''base'' \<and> baseToken p = None"
    by (simp only: list_ex_iff)
  from getTrendingTokens_normalised [of ex_parse ex_cfg ex_elsewhere] h
  have d1: "distinct (map pairAddress (getTrendingTokens ex_parse ex_cfg ex_elsewhere))"
    by blast
  from getTrendingTokens_normalised [of ex_parse ex_cfg ex_elsewhere] s1 n1
  have g1: "getTrendingTokens ex_parse ex_cfg ex_elsewhere =
     [ex_foo,
      \<lparr>address = Str ''0xB'', symbol = Str ''BAR'', name = Str ''Bar'', price = Num (Fin 2),
       priceChange24h = Num (Fin 7), volume24h = Num (Fin 90000),
       liquidity = Num (Fin 150000), marketCap = Num (Fin 200000),
       pairAddress = Str ''0xQ''\<rparr>]"
    by simp
  from getTrendingTokens_normalised [of ex_parse ex_cfg ex_twice] s2 n2
  have g2: "getTrendingTokens ex_parse ex_cfg ex_twice = [ex_foo, ex_foo\<lparr>price := Num (Fin 2)\<rparr>]"
    by simp
  from getTrendingTokens_normalised [of ex_parse ex_cfg ex_headless] n3'
  have g3: "getTrendingTokens ex_parse ex_cfg ex_headless = []"
    by simp
  from t h g1 d1 g2 n3 g3 show ?thesis
    by (simp only: list_all_iff simp_thms list.distinct)
qed

end
